theory Spec2Isabelle
  imports Complex_Main "HOL-Library.AList" "HOL-Library.Word"
begin

section \<open>JavaScript values\<close>

text \<open>
  The service is written in JavaScript. Query parameters, request bodies and the option
  bags handed to the browser engine are dynamically typed, so they are modelled by one
  datatype of values. A number is either NaN or a finite value (the code does no arithmetic
  on option values; it only tests them for truthiness and for being positive). An object is
  an association list in property insertion order; an array is an object with index keys.
\<close>

datatype jsnum = NaN | Fin real

datatype jsval =
    JUndefined
  | JNull
  | JBool bool
  | JNum jsnum
  | JStr string
  | JObj "(string \<times> jsval) list"

type_synonym obj = "(string \<times> jsval) list"

type_synonym buffer = "8 word list"

text \<open>ToBoolean: what \<open>if (v)\<close>, \<open>!v\<close> and \<open>v || w\<close> test.\<close>

fun truthy :: "jsval \<Rightarrow> bool" where
  "truthy JUndefined = False"
| "truthy JNull = False"
| "truthy (JBool b) = b"
| "truthy (JNum NaN) = False"
| "truthy (JNum (Fin r)) = (r \<noteq> 0)"
| "truthy (JStr s) = (s \<noteq> [])"
| "truthy (JObj fs) = True"

text \<open>\<open>a || b\<close>\<close>

definition js_or :: "jsval \<Rightarrow> jsval \<Rightarrow> jsval" where
  "js_or a b = (if truthy a then a else b)"

text \<open>\<open>v != null\<close> is false exactly for \<open>null\<close> and \<open>undefined\<close>.\<close>

definition nullish :: "jsval \<Rightarrow> bool" where
  "nullish v = (v = JUndefined \<or> v = JNull)"

text \<open>A parameter default \<open>(x = d)\<close> and a destructuring default apply to \<open>undefined\<close> only.\<close>

definition param_default :: "jsval \<Rightarrow> jsval \<Rightarrow> jsval" where
  "param_default v d = (if v = JUndefined then d else v)"

text \<open>
  \<open>Number(v)\<close>. The conversion of strings and objects (the StringToNumber grammar of the
  language) is a parameter \<open>conv\<close>; the other cases are fixed by the language.
\<close>

fun Number_js :: "(jsval \<Rightarrow> jsnum) \<Rightarrow> jsval \<Rightarrow> jsnum" where
  "Number_js conv JUndefined = NaN"
| "Number_js conv JNull = Fin 0"
| "Number_js conv (JBool b) = Fin (if b then 1 else 0)"
| "Number_js conv (JNum n) = n"
| "Number_js conv v = conv v"

text \<open>Property read \<open>o.k\<close> on an object literal or a parsed query object.\<close>

definition obj_get :: "obj \<Rightarrow> string \<Rightarrow> jsval" where
  "obj_get fs k = (case map_of fs k of None \<Rightarrow> JUndefined | Some v \<Rightarrow> v)"

text \<open>Rest destructuring \<open>const {k1, ..., kn, ...rest} = o\<close>: the properties not named.\<close>

definition obj_omit :: "string list \<Rightarrow> obj \<Rightarrow> obj" where
  "obj_omit ks fs = filter (\<lambda>kv. fst kv \<notin> set ks) fs"

text \<open>
  An object literal \<open>{...o, k1: v1, ..., kn: vn}\<close>: the spread properties first, each later
  property overwriting an earlier one of the same name in place.
\<close>

definition obj_assign :: "obj \<Rightarrow> obj \<Rightarrow> obj" where
  "obj_assign fs ovs = fold (\<lambda>kv. AList.update (fst kv) (snd kv)) ovs fs"

section \<open>Errors, the call trace and the collaborators\<close>

datatype jserror = TypeError | Thrown nat

text \<open>
  Every call the service makes on the browser engine is recorded, in call order, in a trace.
  \<open>MergePdfs\<close> records the invocation of the merge step.
\<close>

datatype event =
    NewPage
  | OnError
  | SetRequestInterception
  | OnRequest jsval jsval jsval
  | EmulateMediaType jsval
  | Authenticate jsval
  | Goto string jsnum jsval
  | Content
  | Pdf obj
  | SetViewport jsnum jsnum
  | WaitForAnimations obj jsnum
  | Screenshot obj
  | IsClosed
  | Close
  | MergePdfs buffer buffer

datatype page = Page

text \<open>
  The browser engine is an external collaborator. Each of its operations either returns or
  throws, and what it does may depend on everything done to the page so far, so each
  operation takes the trace of the earlier calls. \<open>waitForAnimations\<close> is a module of the
  repository that is not part of the sources at hand; it is a parameter as well.
\<close>

record engine =
  browser_newPage :: "event list \<Rightarrow> jserror + page"
  page_emulateMediaType :: "event list \<Rightarrow> jsval \<Rightarrow> jserror + unit"
  page_authenticate :: "event list \<Rightarrow> jsval \<Rightarrow> jserror + unit"
  page_goto :: "event list \<Rightarrow> string \<Rightarrow> jsnum \<Rightarrow> jsval \<Rightarrow> jserror + unit"
  page_content :: "event list \<Rightarrow> jserror + string"
  page_pdf :: "event list \<Rightarrow> obj \<Rightarrow> jserror + buffer"
  page_screenshot :: "event list \<Rightarrow> obj \<Rightarrow> jserror + buffer"
  waitForAnimations :: "event list \<Rightarrow> obj \<Rightarrow> jsnum \<Rightarrow> jserror + unit"
  page_isClosed :: "event list \<Rightarrow> jserror + bool"
  page_close :: "event list \<Rightarrow> jserror + unit"

text \<open>
  The PDF library: decoding a buffer into a document (a sequence of pages) and encoding a
  document. Pages are opaque.
\<close>

record 'pg pdflib =
  PDFDocument_load :: "buffer \<Rightarrow> jserror + 'pg list"
  PDFDocument_save :: "'pg list \<Rightarrow> jserror + buffer"

text \<open>A computation threads the trace and returns a value or throws.\<close>

type_synonym 'a prog = "event list \<Rightarrow> (jserror + 'a) \<times> event list"

definition returns :: "'a \<Rightarrow> 'a prog" where
  "returns x = (\<lambda>t. (Inr x, t))"

definition lift :: "jserror + 'a \<Rightarrow> 'a prog" where
  "lift r = (\<lambda>t. (r, t))"

definition and_then :: "'a prog \<Rightarrow> ('a \<Rightarrow> 'b prog) \<Rightarrow> 'b prog" where
  "and_then m f = (\<lambda>t. case m t of (Inl e, t') \<Rightarrow> (Inl e, t') | (Inr x, t') \<Rightarrow> f x t')"

definition try_catch :: "'a prog \<Rightarrow> (jserror \<Rightarrow> 'a prog) \<Rightarrow> 'a prog" where
  "try_catch m h = (\<lambda>t. case m t of (Inl e, t') \<Rightarrow> h e t' | (Inr x, t') \<Rightarrow> (Inr x, t'))"

text \<open>An awaited call: the collaborator answers from the trace so far; the call is logged.\<close>

definition call :: "event \<Rightarrow> (event list \<Rightarrow> jserror + 'a) \<Rightarrow> 'a prog" where
  "call ev answer = (\<lambda>t. (answer t, t @ [ev]))"

text \<open>A call whose promise is not awaited: it is logged and its outcome is dropped.\<close>

definition fire :: "event \<Rightarrow> unit prog" where
  "fire ev = (\<lambda>t. (Inr (), t @ [ev]))"

section \<open>The document merger\<close>

text \<open>
  \<open>copyPages(doc, [i])\<close> yields the page at index \<open>i\<close>; an index outside the document
  makes the library throw.
\<close>

definition copyPages :: "'pg list \<Rightarrow> nat \<Rightarrow> jserror + 'pg" where
  "copyPages doc i = (if i < length doc then Inr (doc ! i) else Inl TypeError)"

text \<open>
  The loop \<open>for (let i = 0; i < mainDoc.getPageCount(); i++)\<close> of \<open>mergePdfs\<close>, with the
  document under construction as accumulator.
\<close>

function mergeLoop :: "'pg list \<Rightarrow> nat \<Rightarrow> 'pg list \<Rightarrow> jserror + 'pg list" where
  "mergeLoop mainDoc i pdfDoc =
     (if i < length mainDoc
      then (case copyPages mainDoc i of
              Inl e \<Rightarrow> Inl e
            | Inr aMainPage \<Rightarrow> mergeLoop mainDoc (Suc i) (pdfDoc @ [aMainPage]))
      else Inr pdfDoc)"
  by pat_completeness auto
termination
  by (relation "measure (\<lambda>(mainDoc, i, pdfDoc). length mainDoc - i)") auto

declare mergeLoop.simps [simp del]

definition mergePdfs :: "'pg pdflib \<Rightarrow> buffer \<Rightarrow> buffer \<Rightarrow> jserror + buffer" where
  "mergePdfs lib pdf1 pdf2 =
     (case PDFDocument_load lib pdf1 of
        Inl e \<Rightarrow> Inl e
      | Inr coverDoc \<Rightarrow>
          (case copyPages coverDoc 0 of
             Inl e \<Rightarrow> Inl e
           | Inr coverPage \<Rightarrow>
               (case PDFDocument_load lib pdf2 of
                  Inl e \<Rightarrow> Inl e
                | Inr mainDoc \<Rightarrow>
                    (case mergeLoop mainDoc 0 ([] @ [coverPage]) of
                       Inl e \<Rightarrow> Inl e
                     | Inr pdfDoc \<Rightarrow> PDFDocument_save lib pdfDoc))))"

section \<open>The rendering service\<close>

text \<open>\<open>Number(x) || d\<close> on numbers, and the test \<open>n > 0\<close>.\<close>

definition num_or :: "jsnum \<Rightarrow> jsnum \<Rightarrow> jsnum" where
  "num_or n d = (if truthy (JNum n) then n else d)"

fun num_pos :: "jsnum \<Rightarrow> bool" where
  "num_pos NaN = False"
| "num_pos (Fin r) = (0 < r)"

text \<open>
  Property read on an arbitrary value, as in \<open>body.footerTemplate\<close>: reading a property of
  \<open>null\<close> or \<open>undefined\<close> throws a TypeError; a string, number or boolean has none of the
  properties read here.
\<close>

fun get_prop :: "jsval \<Rightarrow> string \<Rightarrow> jserror + jsval" where
  "get_prop JUndefined k = Inl TypeError"
| "get_prop JNull k = Inl TypeError"
| "get_prop (JObj fs) k = Inr (obj_get fs k)"
| "get_prop v k = Inr JUndefined"

text \<open>
  \<open>closePage\<close>: the whole body sits in a \<open>try\<close> whose \<open>catch\<close> is empty, so neither
  \<open>isClosed\<close> nor \<open>close\<close> can make it throw. \<open>None\<close> is the \<open>null\<close> page.
\<close>

definition closePage :: "engine \<Rightarrow> page option \<Rightarrow> unit prog" where
  "closePage eng pg =
     try_catch
       (case pg of
          None \<Rightarrow> returns ()
        | Some p \<Rightarrow>
            and_then (call IsClosed (page_isClosed eng)) (\<lambda>closed.
              if \<not> closed then call Close (page_close eng) else returns ()))
       (\<lambda>e. returns ())"

text \<open>
  \<open>createPage\<close>. The two observers registered with \<open>page.on\<close> are run by the engine; the
  registration is logged with the values the request observer captures.
\<close>

definition createPage ::
  "(jsval \<Rightarrow> jsnum) \<Rightarrow> engine \<Rightarrow> string \<Rightarrow> obj \<Rightarrow> jsval \<Rightarrow> jsval \<Rightarrow> jsval \<Rightarrow> page prog" where
  "createPage conv eng url options authorization post postData =
     and_then (call NewPage (browser_newPage eng)) (\<lambda>pg.
     and_then (fire OnError) (\<lambda>_.
     and_then (fire SetRequestInterception) (\<lambda>_.
     and_then (fire (OnRequest (param_default authorization (JStr []))
                               (param_default post (JBool False))
                               (param_default postData (JStr [])))) (\<lambda>_.
     and_then (if truthy (obj_get options ''emulateMediaType'')
               then call (EmulateMediaType (obj_get options ''emulateMediaType''))
                         (\<lambda>t. page_emulateMediaType eng t (obj_get options ''emulateMediaType''))
               else returns ()) (\<lambda>_.
     and_then (if truthy (obj_get options ''credentials'')
               then call (Authenticate (obj_get options ''credentials''))
                         (\<lambda>t. page_authenticate eng t (obj_get options ''credentials''))
               else returns ()) (\<lambda>_.
     and_then (call (Goto url
                       (num_or (Number_js conv (obj_get options ''timeout'')) (Fin (30 * 1000)))
                       (js_or (obj_get options ''waitUntil'') (JStr ''networkidle2'')))
                    (\<lambda>t. page_goto eng t url
                       (num_or (Number_js conv (obj_get options ''timeout'')) (Fin (30 * 1000)))
                       (js_or (obj_get options ''waitUntil'') (JStr ''networkidle2'')))) (\<lambda>_.
     returns pg)))))))"

text \<open>
  The frame shared by the three operations:
  \<open>let page = null; try { page = await this.createPage(...); ... } finally { this.closePage(page); }\<close>.
  The variable \<open>page\<close> is assigned only when \<open>createPage\<close> returns.
\<close>

definition with_page :: "engine \<Rightarrow> page prog \<Rightarrow> (page \<Rightarrow> 'a prog) \<Rightarrow> 'a prog" where
  "with_page eng create body =
     (\<lambda>t. case create t of
        (Inl e, t1) \<Rightarrow> (Inl e, snd (closePage eng None t1))
      | (Inr pg, t1) \<Rightarrow>
          (case body pg t1 of (r, t2) \<Rightarrow> (r, snd (closePage eng (Some pg) t2))))"

text \<open>
  The call \<open>this.createPage(url, { timeout, waitUntil, credentials }, authorization, post, body)\<close>
  of \<open>html\<close> and \<open>screenshot\<close>, with the defaults of their parameters
  \<open>(authorization = "", post = true, body = "")\<close> applied.
\<close>

definition openPage ::
  "(jsval \<Rightarrow> jsnum) \<Rightarrow> engine \<Rightarrow> string \<Rightarrow> obj \<Rightarrow> jsval \<Rightarrow> jsval \<Rightarrow> jsval \<Rightarrow> page prog" where
  "openPage conv eng url options authorization post body =
     createPage conv eng url
       [(''timeout'', obj_get options ''timeout''),
        (''waitUntil'', obj_get options ''waitUntil''),
        (''credentials'', obj_get options ''credentials'')]
       (param_default authorization (JStr []))
       (param_default post (JBool True))
       (param_default body (JStr []))"

text \<open>The same call in \<open>pdf\<close>, which adds \<open>emulateMediaType: emulateMediaType || "print"\<close>.\<close>

definition openPdfPage ::
  "(jsval \<Rightarrow> jsnum) \<Rightarrow> engine \<Rightarrow> string \<Rightarrow> obj \<Rightarrow> jsval \<Rightarrow> jsval \<Rightarrow> jsval \<Rightarrow> page prog" where
  "openPdfPage conv eng url options authorization post body =
     createPage conv eng url
       [(''timeout'', obj_get options ''timeout''),
        (''waitUntil'', obj_get options ''waitUntil''),
        (''credentials'', obj_get options ''credentials''),
        (''emulateMediaType'', js_or (obj_get options ''emulateMediaType'') (JStr ''print''))]
       (param_default authorization (JStr []))
       (param_default post (JBool True))
       (param_default body (JStr []))"

definition html ::
  "(jsval \<Rightarrow> jsnum) \<Rightarrow> engine \<Rightarrow> string \<Rightarrow> obj \<Rightarrow> jsval \<Rightarrow> jsval \<Rightarrow> jsval \<Rightarrow> string prog" where
  "html conv eng url options authorization post body =
     with_page eng (openPage conv eng url options authorization post body)
       (\<lambda>pg. call Content (page_content eng))"

text \<open>The three option objects handed to \<open>page.pdf\<close>.\<close>

definition firstPassOptions :: "(jsval \<Rightarrow> jsnum) \<Rightarrow> obj \<Rightarrow> jsval \<Rightarrow> jsval \<Rightarrow> obj" where
  "firstPassOptions conv extraOptions footerTemplate footerFirstMarginBottom =
     obj_assign extraOptions
       [(''scale'', JNum (Number_js conv (param_default (obj_get extraOptions ''scale'') (JNum (Fin 1))))),
        (''displayHeaderFooter'', JBool True),
        (''printBackground'', JBool (obj_get extraOptions ''printBackground'' = JStr ''true'')),
        (''landscape'', JBool (obj_get extraOptions ''landscape'' = JStr ''true'')),
        (''pageRanges'', JStr ''1''),
        (''footerTemplate'', footerTemplate),
        (''margin'', JObj [(''bottom'', if \<not> nullish footerFirstMarginBottom
                                         then footerFirstMarginBottom else JStr ''35px'')])]"

definition secondPassOptions :: "(jsval \<Rightarrow> jsnum) \<Rightarrow> obj \<Rightarrow> jsval \<Rightarrow> jsval \<Rightarrow> obj" where
  "secondPassOptions conv extraOptions footerTemplate footerOtherMarginBottom =
     obj_assign extraOptions
       [(''scale'', JNum (Number_js conv (param_default (obj_get extraOptions ''scale'') (JNum (Fin 1))))),
        (''printBackground'', JBool (obj_get extraOptions ''printBackground'' = JStr ''true'')),
        (''landscape'', JBool (obj_get extraOptions ''landscape'' = JStr ''true'')),
        (''displayHeaderFooter'', JBool True),
        (''pageRanges'', JStr ''2-''),
        (''footerTemplate'', footerTemplate),
        (''margin'', JObj [(''bottom'', if \<not> nullish footerOtherMarginBottom
                                         then footerOtherMarginBottom else JStr ''78px'')])]"

definition singlePassOptions :: "(jsval \<Rightarrow> jsnum) \<Rightarrow> obj \<Rightarrow> obj" where
  "singlePassOptions conv extraOptions =
     obj_assign extraOptions
       [(''scale'', JNum (Number_js conv (param_default (obj_get extraOptions ''scale'') (JNum (Fin 1))))),
        (''displayHeaderFooter'', JBool (obj_get extraOptions ''displayHeaderFooter'' = JStr ''true'')),
        (''printBackground'', JBool (obj_get extraOptions ''printBackground'' = JStr ''true'')),
        (''landscape'', JBool (obj_get extraOptions ''landscape'' = JStr ''true''))]"

text \<open>
  The part of \<open>pdf\<close> that follows the creation of the page. In the two-pass branch the
  second render sits in its own \<open>try\<close>, whose \<open>catch\<close> returns the first buffer.
\<close>

definition pdfRender ::
  "(jsval \<Rightarrow> jsnum) \<Rightarrow> 'pg pdflib \<Rightarrow> engine \<Rightarrow> obj \<Rightarrow> jsval \<Rightarrow> buffer prog" where
  "pdfRender conv lib eng extraOptions body =
     and_then (lift (get_prop body ''footerTemplate'')) (\<lambda>footerTemplate.
     and_then (lift (get_prop body ''footerFirstMarginBottom'')) (\<lambda>footerFirstMarginBottom.
     and_then (lift (get_prop body ''footerOtherMarginBottom'')) (\<lambda>footerOtherMarginBottom.
       if \<not> nullish footerTemplate then
         and_then (call (Pdf (firstPassOptions conv extraOptions footerTemplate footerFirstMarginBottom))
                     (\<lambda>t. page_pdf eng t
                        (firstPassOptions conv extraOptions footerTemplate footerFirstMarginBottom))) (\<lambda>pdf1.
         and_then (try_catch
                     (and_then
                        (call (Pdf (secondPassOptions conv extraOptions footerTemplate footerOtherMarginBottom))
                           (\<lambda>t. page_pdf eng t
                              (secondPassOptions conv extraOptions footerTemplate footerOtherMarginBottom)))
                        (\<lambda>pdf2. returns (Some pdf2)))
                     (\<lambda>ex. returns None)) (\<lambda>second.
           case second of
             None \<Rightarrow> returns pdf1
           | Some pdf2 \<Rightarrow>
               and_then (fire (MergePdfs pdf1 pdf2)) (\<lambda>_. lift (mergePdfs lib pdf1 pdf2))))
       else
         call (Pdf (singlePassOptions conv extraOptions))
           (\<lambda>t. page_pdf eng t (singlePassOptions conv extraOptions)))))"

text \<open>
  \<open>const { timeout, waitUntil, credentials, emulateMediaType, ...extraOptions } = options\<close>
\<close>

definition pdfExtraOptions :: "obj \<Rightarrow> obj" where
  "pdfExtraOptions options =
     obj_omit [''timeout'', ''waitUntil'', ''credentials'', ''emulateMediaType''] options"

definition pdf ::
  "(jsval \<Rightarrow> jsnum) \<Rightarrow> 'pg pdflib \<Rightarrow> engine \<Rightarrow> string \<Rightarrow> obj \<Rightarrow> jsval \<Rightarrow> jsval \<Rightarrow> jsval
     \<Rightarrow> buffer prog" where
  "pdf conv lib eng url options authorization post body =
     with_page eng (openPdfPage conv eng url options authorization post body)
       (\<lambda>pg. pdfRender conv lib eng (pdfExtraOptions options) (param_default body (JStr [])))"

text \<open>The option object handed to \<open>page.screenshot\<close>.\<close>

definition screenshotOptions :: "(jsval \<Rightarrow> jsnum) \<Rightarrow> obj \<Rightarrow> obj" where
  "screenshotOptions conv extraOptions =
     obj_assign (obj_omit [''fullPage'', ''omitBackground'', ''screenshotType'', ''quality''] extraOptions)
       [(''type'', js_or (obj_get extraOptions ''screenshotType'') (JStr ''png'')),
        (''quality'', JNum (num_or (Number_js conv (obj_get extraOptions ''quality''))
                             (if obj_get extraOptions ''screenshotType'' = JUndefined
                                 \<or> obj_get extraOptions ''screenshotType'' = JStr ''png''
                              then Fin 0 else Fin 100))),
        (''fullPage'', JBool (obj_get extraOptions ''fullPage'' = JStr ''true'')),
        (''omitBackground'', JBool (obj_get extraOptions ''omitBackground'' = JStr ''true''))]"

definition screenshotRender ::
  "(jsval \<Rightarrow> jsnum) \<Rightarrow> engine \<Rightarrow> obj \<Rightarrow> obj \<Rightarrow> (jsval \<times> buffer) prog" where
  "screenshotRender conv eng options extraOptions =
     and_then (fire (SetViewport
                 (Number_js conv (js_or (obj_get extraOptions ''width'') (JNum (Fin 800))))
                 (Number_js conv (js_or (obj_get extraOptions ''height'') (JNum (Fin 600)))))) (\<lambda>_.
     and_then (if num_pos (Number_js conv (js_or (obj_get options ''animationTimeout'') (JNum (Fin 0))))
               then call (WaitForAnimations (screenshotOptions conv extraOptions)
                            (Number_js conv (js_or (obj_get options ''animationTimeout'') (JNum (Fin 0)))))
                         (\<lambda>t. waitForAnimations eng t (screenshotOptions conv extraOptions)
                            (Number_js conv (js_or (obj_get options ''animationTimeout'') (JNum (Fin 0)))))
               else returns ()) (\<lambda>_.
     and_then (call (Screenshot (screenshotOptions conv extraOptions))
                 (\<lambda>t. page_screenshot eng t (screenshotOptions conv extraOptions))) (\<lambda>buffer.
     returns (obj_get extraOptions ''screenshotType'', buffer))))"

text \<open>\<open>const { timeout, waitUntil, credentials, ...extraOptions } = options\<close>\<close>

definition screenshotExtraOptions :: "obj \<Rightarrow> obj" where
  "screenshotExtraOptions options = obj_omit [''timeout'', ''waitUntil'', ''credentials''] options"

definition screenshot ::
  "(jsval \<Rightarrow> jsnum) \<Rightarrow> engine \<Rightarrow> string \<Rightarrow> obj \<Rightarrow> jsval \<Rightarrow> jsval \<Rightarrow> jsval
     \<Rightarrow> (jsval \<times> buffer) prog" where
  "screenshot conv eng url options authorization post body =
     with_page eng (openPage conv eng url options authorization post body)
       (\<lambda>pg. screenshotRender conv eng options (screenshotExtraOptions options))"

section \<open>The HTTP gateway\<close>

text \<open>
  The platform functions the gateway relies on are parameters: \<open>Number\<close> on strings and
  objects, \<open>String\<close> on values that are not strings, the URL parser and the
  \<open>content-disposition\<close> header formatter.
\<close>

record urlobj =
  hostname :: string
  pathname :: string

record platform =
  to_number :: "jsval \<Rightarrow> jsnum"
  to_string :: "jsval \<Rightarrow> string"
  new_URL :: "string \<Rightarrow> jserror + urlobj"
  contentDisposition :: "string \<Rightarrow> jsval \<Rightarrow> jserror + string"

text \<open>
  A request. The query parser yields a string for a plain parameter; \<open>url\<close>, \<open>type\<close> and
  \<open>filename\<close> are taken as plain parameters, absent or a string. \<open>q_options\<close> holds the
  query parameters other than \<open>url\<close>, \<open>type\<close>, \<open>filename\<close> and \<open>authorization\<close>.
\<close>

record request =
  req_method :: string
  q_url :: "string option"
  q_type :: "string option"
  q_filename :: "string option"
  q_authorization :: jsval
  q_options :: obj
  req_body :: jsval

datatype payload = Text string | Bytes buffer

record response =
  status :: nat
  headers :: "(string \<times> jsval) list"
  sent :: payload

text \<open>String operations of the language, on strings as character lists.\<close>

fun includes_js :: "string \<Rightarrow> string \<Rightarrow> bool" where
  "includes_js [] sub = (sub = [])"
| "includes_js (c # cs) sub = (take (length sub) (c # cs) = sub \<or> includes_js cs sub)"

fun split_on :: "char \<Rightarrow> string \<Rightarrow> string list" where
  "split_on sep [] = [[]]"
| "split_on sep (c # cs) =
     (if c = sep then [] # split_on sep cs
      else (case split_on sep cs of
              [] \<Rightarrow> [[c]]
            | x # xs \<Rightarrow> (c # x) # xs))"

text \<open>\<open>a.pop()\<close> on the array a split returns, which is never empty.\<close>

fun pop :: "string list \<Rightarrow> string" where
  "pop [] = []"
| "pop [x] = x"
| "pop (x # y # ys) = pop (y # ys)"

text \<open>\<open>s.lastIndexOf(c)\<close>: the index of the last occurrence, \<open>-1\<close> when there is none.\<close>

fun lastIndexFrom :: "string \<Rightarrow> char \<Rightarrow> int \<Rightarrow> int \<Rightarrow> int" where
  "lastIndexFrom [] c i found = found"
| "lastIndexFrom (x # xs) c i found = lastIndexFrom xs c (i + 1) (if x = c then i else found)"

definition lastIndexOf :: "string \<Rightarrow> char \<Rightarrow> int" where
  "lastIndexOf s c = lastIndexFrom s c 0 (- 1)"

text \<open>
  \<open>toLowerCase\<close> on the letters A to Z; the only use below is the test for the suffix
  \<open>.pdf\<close>, which other characters do not affect.
\<close>

definition lower_char :: "char \<Rightarrow> char" where
  "lower_char c =
     (if 65 \<le> (of_char c :: nat) \<and> (of_char c :: nat) \<le> 90
      then char_of (of_char c + (32 :: nat)) else c)"

definition toLowerCase :: "string \<Rightarrow> string" where
  "toLowerCase s = map lower_char s"

definition endsWith :: "string \<Rightarrow> string \<Rightarrow> bool" where
  "endsWith s suffix =
     (length suffix \<le> length s \<and> drop (length s - length suffix) s = suffix)"

text \<open>
  The file name of a PDF response: the caller's, or one derived from the parsed URL, with
  \<open>.pdf\<close> appended unless it is there already.
\<close>

definition derivedName :: "urlobj \<Rightarrow> string" where
  "derivedName urlObj =
     (if pathname urlObj \<noteq> ''/'' then
        (let filename = pop (split_on CHR ''/'' (pathname urlObj));
             filename = (if filename = [] then filter (\<lambda>c. c \<noteq> CHR ''/'') (pathname urlObj)
                         else filename);
             extDotPosition = lastIndexOf filename CHR ''.''
         in if extDotPosition > 0 then take (nat extDotPosition) filename else filename)
      else hostname urlObj)"

definition pdfFilename :: "urlobj \<Rightarrow> string option \<Rightarrow> string" where
  "pdfFilename urlObj filename =
     (let filename = (case filename of
                        None \<Rightarrow> derivedName urlObj
                      | Some f \<Rightarrow> if f = [] then derivedName urlObj else f)
      in if \<not> endsWith (toLowerCase filename) ''.pdf'' then filename @ ''.pdf'' else filename)"

text \<open>The error-handling middleware.\<close>

definition errorPage :: "jserror \<Rightarrow> response" where
  "errorPage err = \<lparr>status = 500, headers = [], sent = Text ''Oops, Somehting went wrong''\<rparr>"

definition String_js :: "platform \<Rightarrow> jsval \<Rightarrow> string" where
  "String_js plat v = (case v of JStr s \<Rightarrow> s | _ \<Rightarrow> to_string plat v)"

text \<open>The body of the \<open>try\<close> block of the query-based endpoint: the \<open>switch\<close> on \<open>type\<close>.\<close>

definition dispatch ::
  "platform \<Rightarrow> 'pg pdflib \<Rightarrow> engine \<Rightarrow> request \<Rightarrow> string \<Rightarrow> response prog" where
  "dispatch plat lib eng req url =
     (if q_type req = Some ''pdf'' then
        and_then (lift (new_URL plat url)) (\<lambda>urlObj.
        and_then (pdf (to_number plat) lib eng url
                    (obj_omit [''contentDispositionType''] (q_options req))
                    (q_authorization req) (JBool (req_method req = ''POST'')) (req_body req)) (\<lambda>buf.
        and_then (lift (contentDisposition plat (pdfFilename urlObj (q_filename req))
                    (js_or (obj_get (q_options req) ''contentDispositionType'') (JStr ''attachment'')))) (\<lambda>cd.
        returns \<lparr>status = 200,
                 headers = [(''Content-Type'', JStr ''application/pdf''),
                            (''Content-Length'', JNum (Fin (real (length buf)))),
                            (''Content-Disposition'', JStr cd)],
                 sent = Bytes buf\<rparr>)))
      else if q_type req = Some ''screenshot'' then
        and_then (screenshot (to_number plat) eng url (q_options req)
                    (q_authorization req) (JBool (req_method req = ''POST'')) (req_body req)) (\<lambda>shot.
        returns \<lparr>status = 200,
                 headers = [(''Content-Type'',
                               JStr (''image/'' @ String_js plat (js_or (fst shot) (JStr ''png'')))),
                            (''Content-Length'', JNum (Fin (real (length (snd shot)))))],
                 sent = Bytes (snd shot)\<rparr>)
      else
        and_then (html (to_number plat) eng url (q_options req)
                    (q_authorization req) (req_body req) JUndefined) (\<lambda>page_html.
        returns \<lparr>status = 200, headers = [], sent = Text page_html\<rparr>))"

text \<open>A \<open>url\<close> that does not contain \<open>://\<close> is prefixed with \<open>http://\<close>.\<close>

definition effectiveUrl :: "string \<Rightarrow> string" where
  "effectiveUrl url = (if \<not> includes_js url ''://'' then ''http://'' @ url else url)"

text \<open>
  The query-based endpoint \<open>app.use(async (req, res, next) => ...)\<close>: the guard on \<open>url\<close>,
  the scheme prefix, and the \<open>try\<close> whose \<open>catch\<close> hands the error to the error page.
\<close>

definition app_use ::
  "platform \<Rightarrow> 'pg pdflib \<Rightarrow> engine \<Rightarrow> request \<Rightarrow> event list \<Rightarrow> response \<times> event list" where
  "app_use plat lib eng req t =
     (case q_url req of
        None \<Rightarrow>
          (\<lparr>status = 400, headers = [],
            sent = Text ''Search with url parameter. For eaxample, ?url=http://yourdomain''\<rparr>, t)
      | Some url \<Rightarrow>
          if url = [] then
            (\<lparr>status = 400, headers = [],
              sent = Text ''Search with url parameter. For eaxample, ?url=http://yourdomain''\<rparr>, t)
          else
            (case dispatch plat lib eng req (effectiveUrl url) t of
               (Inl e, t') \<Rightarrow> (errorPage e, t')
             | (Inr res, t') \<Rightarrow> (res, t')))"

section \<open>The content cache\<close>

text \<open>
  \<open>htmlCache\<close> is a plain object used as a map from keys to entries. Time is in
  milliseconds, as \<open>Date\<close> has it. A plain object has own properties and a prototype:
  a read that finds no own property continues in the prototype, and the assignment
  \<open>htmlCache["__proto__"] = e\<close> replaces the prototype instead of adding an own
  property, so no statement of the program gives the object an own property of that name.
  \<open>proto = None\<close> is the initial prototype \<open>Object.prototype\<close>. The cached content is
  the text of the request body.
\<close>

record cache_entry =
  entry_html :: string
  validUntil :: int

record htmlCache =
  own :: "string \<rightharpoonup> cache_entry"
  proto :: "cache_entry option"

text \<open>
  What a read \<open>htmlCache[key]\<close> yields: nothing, an entry, or some other value reached
  through the prototype (a method of \<open>Object.prototype\<close>, or a field of an entry installed
  as prototype), which has neither an \<open>html\<close> nor a \<open>validUntil\<close> property.
  \<open>Null\<close> is what \<open>getFromCache\<close> returns for an expired entry.
\<close>

datatype lookup = Undefined | Null | Entry cache_entry | Inherited

definition Object_prototype_names :: "string list" where
  "Object_prototype_names =
     [''constructor'', ''__defineGetter__'', ''__defineSetter__'', ''hasOwnProperty'',
      ''__lookupGetter__'', ''__lookupSetter__'', ''isPrototypeOf'', ''propertyIsEnumerable'',
      ''toString'', ''valueOf'', ''__proto__'', ''toLocaleString'']"

definition cache_read :: "htmlCache \<Rightarrow> string \<Rightarrow> lookup" where
  "cache_read c key =
     (if key = ''__proto__'' then
        (case proto c of None \<Rightarrow> Inherited | Some p \<Rightarrow> Entry p)
      else
        (case own c key of
           Some e \<Rightarrow> Entry e
         | None \<Rightarrow>
             if key \<in> set Object_prototype_names then Inherited
             else if proto c \<noteq> None \<and> (key = ''html'' \<or> key = ''validUntil'') then Inherited
             else Undefined))"

definition cache_write :: "htmlCache \<Rightarrow> string \<Rightarrow> cache_entry \<Rightarrow> htmlCache" where
  "cache_write c key e =
     (if key = ''__proto__'' then c\<lparr>proto := Some e\<rparr> else c\<lparr>own := (own c)(key \<mapsto> e)\<rparr>)"

text \<open>\<open>delete htmlCache[key]\<close> removes an own property and nothing else.\<close>

definition cache_delete :: "htmlCache \<Rightarrow> string \<Rightarrow> htmlCache" where
  "cache_delete c key = c\<lparr>own := (own c)(key := None)\<rparr>"

definition addToCache :: "htmlCache \<Rightarrow> string \<Rightarrow> string \<Rightarrow> int \<Rightarrow> htmlCache" where
  "addToCache c key html_text now =
     cache_write c key \<lparr>entry_html = html_text, validUntil = now + (1 * 60 * 1000)\<rparr>"

definition checkCacheValidity :: "htmlCache \<Rightarrow> int \<Rightarrow> htmlCache" where
  "checkCacheValidity c now =
     c\<lparr>own := (\<lambda>key. case own c key of
                       None \<Rightarrow> None
                     | Some e \<Rightarrow> if validUntil e < now then None else Some e)\<rparr>"

text \<open>
  \<open>getFromCache\<close> returns what it found and the cache it leaves. The comparison
  \<open>found.validUntil < new Date()\<close> is false when \<open>found\<close> has no \<open>validUntil\<close>.
\<close>

definition getFromCache :: "htmlCache \<Rightarrow> string \<Rightarrow> int \<Rightarrow> lookup \<times> htmlCache" where
  "getFromCache c key now =
     (case cache_read c key of
        Entry e \<Rightarrow> if validUntil e < now then (Null, cache_delete c key) else (Entry e, c)
      | found \<Rightarrow> (found, c))"

text \<open>
  The handler \<open>app.get("/", ...)\<close>. Reading \<open>rep.html\<close> throws when \<open>rep\<close> is \<open>null\<close> or
  \<open>undefined\<close>; the handler is synchronous, so the error reaches the error page.
\<close>

definition app_get :: "htmlCache \<Rightarrow> string \<Rightarrow> int \<Rightarrow> response \<times> htmlCache" where
  "app_get c key now =
     (case getFromCache c key now of
        (Undefined, c') \<Rightarrow> (errorPage TypeError, c')
      | (Null, c') \<Rightarrow> (errorPage TypeError, c')
      | (Entry e, c') \<Rightarrow>
          if entry_html e \<noteq> [] then
            (\<lparr>status = 200,
              headers = [(''Content-Type'', JStr ''text/html; charset=utf-8''),
                         (''Content-Length'', JNum (Fin (real (length (entry_html e)))))],
              sent = Text (entry_html e)\<rparr>, c')
          else (\<lparr>status = 200, headers = [], sent = Text ''invalid key''\<rparr>, c')
      | (Inherited, c') \<Rightarrow> (\<lparr>status = 200, headers = [], sent = Text ''invalid key''\<rparr>, c'))"



section \<open>Observations on the call trace\<close>

text \<open>The render calls (\<open>page.pdf\<close>) and the invocations of the merge step in a trace.\<close>

fun is_render :: "event \<Rightarrow> bool" where
  "is_render (Pdf opts) = True"
| "is_render ev = False"

fun is_merge :: "event \<Rightarrow> bool" where
  "is_merge (MergePdfs a b) = True"
| "is_merge ev = False"

definition render_calls :: "event list \<Rightarrow> event list" where
  "render_calls tr = filter is_render tr"

definition merge_calls :: "event list \<Rightarrow> event list" where
  "merge_calls tr = filter is_merge tr"

section \<open>The file name, in the words of the specification\<close>

text \<open>
  The last path segment is what follows the last \<open>/\<close>. \<open>stem\<close> drops the last \<open>.\<close>
  and what follows it when that \<open>.\<close> is not the first character; \<open>stripFinalExtension\<close>
  drops them wherever the last \<open>.\<close> is. \<open>claimedFilename\<close> is the derivation as the
  specification words it: the last path segment with its final extension stripped when the
  path is not the root, the host name when it is, with \<open>.pdf\<close> appended when missing.
\<close>

definition lastSegment :: "string \<Rightarrow> string" where
  "lastSegment p = rev (takeWhile (\<lambda>c. c \<noteq> CHR ''/'') (rev p))"

definition stem :: "string \<Rightarrow> string" where
  "stem s = (if CHR ''.'' \<in> set (tl s)
             then rev (tl (dropWhile (\<lambda>c. c \<noteq> CHR ''.'') (rev s))) else s)"

definition stripFinalExtension :: "string \<Rightarrow> string" where
  "stripFinalExtension s = (if CHR ''.'' \<in> set s
             then rev (tl (dropWhile (\<lambda>c. c \<noteq> CHR ''.'') (rev s))) else s)"

definition withPdf :: "string \<Rightarrow> string" where
  "withPdf n = (if endsWith (toLowerCase n) ''.pdf'' then n else n @ ''.pdf'')"

definition claimedFilename :: "urlobj \<Rightarrow> string" where
  "claimedFilename u =
     withPdf (if pathname u \<noteq> ''/'' then stripFinalExtension (lastSegment (pathname u))
              else hostname u)"

section \<open>Sample collaborators and requests\<close>

text \<open>
  Concrete collaborators for the instances below. In \<open>sampleEngine\<close> every engine
  operation returns, except that navigation answers \<open>navigation\<close> and \<open>page.pdf\<close>
  answers \<open>render\<close>; the page reports that it is not closed. In \<open>byteLib\<close> a page
  is a byte and a buffer is the sequence of its pages.
\<close>

definition noNumber :: "jsval \<Rightarrow> jsnum" where
  "noNumber v = NaN"

definition sampleEngine :: "(jserror + unit) \<Rightarrow> (obj \<Rightarrow> jserror + buffer) \<Rightarrow> engine" where
  "sampleEngine navigation render =
     \<lparr>browser_newPage = (\<lambda>t. Inr Page),
      page_emulateMediaType = (\<lambda>t v. Inr ()),
      page_authenticate = (\<lambda>t v. Inr ()),
      page_goto = (\<lambda>t u n w. navigation),
      page_content = (\<lambda>t. Inr ''<html></html>''),
      page_pdf = (\<lambda>t. render),
      page_screenshot = (\<lambda>t opts. Inr [137, 80]),
      waitForAnimations = (\<lambda>t opts n. Inr ()),
      page_isClosed = (\<lambda>t. Inr False),
      page_close = (\<lambda>t. Inr ())\<rparr>"

definition bodyPassFails :: "obj \<Rightarrow> jserror + buffer" where
  "bodyPassFails opts =
     (if obj_get opts ''pageRanges'' = JStr ''2-'' then Inl (Thrown 2) else Inr [37, 80])"

definition byteLib :: "8 word pdflib" where
  "byteLib = \<lparr>PDFDocument_load = Inr, PDFDocument_save = Inr\<rparr>"

definition openedTrace :: "event list" where
  "openedTrace =
     [NewPage, OnError, SetRequestInterception,
      OnRequest (JStr []) (JBool True) (JObj [(''footerTemplate'', JStr ''<p></p>'')]),
      EmulateMediaType (JStr ''print''),
      Goto ''http://a'' (Fin 30000) (JStr ''networkidle2'')]"

definition everyPassFails :: "obj \<Rightarrow> jserror + buffer" where
  "everyPassFails opts = Inl (Thrown 1)"

definition everyPassReturns :: "obj \<Rightarrow> jserror + buffer" where
  "everyPassReturns opts = (if obj_get opts ''pageRanges'' = JStr ''2-'' then Inr [2, 3] else Inr [1])"

definition sampleOptions :: obj where
  "sampleOptions = [(''landscape'', JStr ''true''), (''fullPage'', JStr ''yes''), (''format'', JStr ''A4'')]"

definition plainTrace :: "event list" where
  "plainTrace =
     [NewPage, OnError, SetRequestInterception,
      OnRequest (JStr []) (JBool True) (JStr []),
      EmulateMediaType (JStr ''print''),
      Goto ''http://a'' (Fin 30000) (JStr ''networkidle2'')]"

definition failedTrace :: "event list" where
  "failedTrace =
     [NewPage, OnError, SetRequestInterception,
      OnRequest (JStr []) (JBool True) (JStr []),
      Goto ''http://a'' (Fin 30000) (JStr ''networkidle2'')]"

definition emptyCache :: htmlCache where
  "emptyCache = \<lparr>own = (\<lambda>key. None), proto = None\<rparr>"

definition samplePlatform :: platform where
  "samplePlatform =
     \<lparr>to_number = noNumber,
      to_string = (\<lambda>v. []),
      new_URL = (\<lambda>u. Inr \<lparr>hostname = ''a'', pathname = ''/''\<rparr>),
      contentDisposition = (\<lambda>name kind. Inr (''attachment; filename='' @ name))\<rparr>"

definition sampleRequest :: "string option \<Rightarrow> string option \<Rightarrow> request" where
  "sampleRequest url kind =
     \<lparr>req_method = ''GET'', q_url = url, q_type = kind, q_filename = None,
      q_authorization = JUndefined, q_options = sampleOptions, req_body = JUndefined\<rparr>"

section \<open>Properties of the document merger\<close>

lemma mergeLoop_drop:
  "i \<le> length mainDoc \<Longrightarrow> mergeLoop mainDoc i pdfDoc = Inr (pdfDoc @ drop i mainDoc)"
proof (induction mainDoc i pdfDoc rule: mergeLoop.induct)
  case (1 mainDoc i pdfDoc)
  show ?case
  proof (cases "i < length mainDoc")
    case True
    then have step: "mergeLoop mainDoc i pdfDoc = mergeLoop mainDoc (Suc i) (pdfDoc @ [mainDoc ! i])"
      by (subst mergeLoop.simps) (simp add: copyPages_def)
    have "mergeLoop mainDoc (Suc i) (pdfDoc @ [mainDoc ! i])
            = Inr ((pdfDoc @ [mainDoc ! i]) @ drop (Suc i) mainDoc)"
      using True by (intro "1.IH") (simp_all add: copyPages_def)
    with step True show ?thesis
      by (simp add: Cons_nth_drop_Suc)
  next
    case False
    with "1.prems" show ?thesis
      by (subst mergeLoop.simps) simp
  qed
qed

text \<open>
  C1. When the cover buffer decodes to a document with at least one page and the body buffer
  decodes to a document of N pages, \<open>mergePdfs\<close> returns the encoding of the document
  whose pages are the first page of the cover followed by the N pages of the body in their
  order: 1 + N pages, the first being the cover's first page. When the library decodes what
  it encodes, the returned buffer decodes to exactly that sequence of pages.
\<close>

theorem mergePdfs_pages:
  assumes cover: "PDFDocument_load lib pdf1 = Inr coverDoc"
    and nonempty: "coverDoc \<noteq> []"
    and body: "PDFDocument_load lib pdf2 = Inr mainDoc"
  shows "mergePdfs lib pdf1 pdf2 = PDFDocument_save lib (coverDoc ! 0 # mainDoc)
       \<and> length (coverDoc ! 0 # mainDoc) = 1 + length mainDoc
       \<and> ((\<forall>doc. \<exists>b. PDFDocument_save lib doc = Inr b \<and> PDFDocument_load lib b = Inr doc) \<longrightarrow>
            (\<exists>out. mergePdfs lib pdf1 pdf2 = Inr out
                 \<and> PDFDocument_load lib out = Inr (coverDoc ! 0 # mainDoc)))"
proof -
  from nonempty have first: "copyPages coverDoc 0 = Inr (coverDoc ! 0)"
    by (simp add: copyPages_def)
  have loop: "mergeLoop mainDoc 0 [coverDoc ! 0] = Inr (coverDoc ! 0 # mainDoc)"
    by (simp add: mergeLoop_drop)
  have result: "mergePdfs lib pdf1 pdf2 = PDFDocument_save lib (coverDoc ! 0 # mainDoc)"
    by (simp add: mergePdfs_def cover first body loop)
  have "\<exists>out. mergePdfs lib pdf1 pdf2 = Inr out
           \<and> PDFDocument_load lib out = Inr (coverDoc ! 0 # mainDoc)"
    if codec: "\<forall>doc. \<exists>b. PDFDocument_save lib doc = Inr b \<and> PDFDocument_load lib b = Inr doc"
  proof -
    from codec obtain out where
      "PDFDocument_save lib (coverDoc ! 0 # mainDoc) = Inr out"
      "PDFDocument_load lib out = Inr (coverDoc ! 0 # mainDoc)"
      by blast
    with result show ?thesis by simp
  qed
  with result show ?thesis by simp
qed

text \<open>
  An instance of C1: a two-page cover and a three-page body merge into four pages.
\<close>

theorem mergePdfs_pages_witness:
  "mergePdfs byteLib [7, 8] [1, 2, 3] = Inr [7, 1, 2, 3]
   \<and> length [7, 1, 2, 3 :: 8 word] = 1 + length [1, 2, 3 :: 8 word]
   \<and> (\<exists>out. mergePdfs byteLib [7, 8] [1, 2, 3] = Inr out
          \<and> PDFDocument_load byteLib out = Inr [7, 1, 2, 3])"
proof -
  have cover: "PDFDocument_load byteLib [7, 8] = Inr [7, 8]"
    and body: "PDFDocument_load byteLib [1, 2, 3] = Inr [1, 2, 3]"
    and save: "PDFDocument_save byteLib [7, 1, 2, 3] = Inr [7, 1, 2, 3]"
    by (simp_all add: byteLib_def)
  have nonempty: "[7, 8 :: 8 word] \<noteq> []"
    by simp
  have codec: "\<forall>doc. \<exists>b. PDFDocument_save byteLib doc = Inr b \<and> PDFDocument_load byteLib b = Inr doc"
    by (simp add: byteLib_def)
  from mergePdfs_pages [OF cover nonempty body] codec save
  show ?thesis
    by auto
qed

lemma byteLib_merge: "mergePdfs byteLib [1] [2, 3] = Inr [1, 2, 3]"
  by (simp add: mergePdfs_def byteLib_def copyPages_def mergeLoop_drop)

section \<open>Option objects\<close>

lemma map_of_obj_assign:
  "map_of (obj_assign fs ovs) = map_of fs ++ map_of (rev ovs)"
proof (induction ovs arbitrary: fs)
  case Nil
  show ?case by (simp add: obj_assign_def)
next
  case (Cons kv ovs)
  have "map_of (obj_assign fs (kv # ovs)) = map_of (obj_assign (AList.update (fst kv) (snd kv) fs) ovs)"
    by (simp add: obj_assign_def)
  also have "\<dots> = map_of (AList.update (fst kv) (snd kv) fs) ++ map_of (rev ovs)"
    by (rule Cons.IH)
  also have "\<dots> = map_of fs ++ map_of (rev (kv # ovs))"
    by (cases kv) (simp add: update_conv' map_add_def fun_eq_iff split: option.splits)
  finally show ?case .
qed

lemma obj_get_obj_assign:
  "obj_get (obj_assign fs ovs) k =
     (case map_of (rev ovs) k of Some v \<Rightarrow> v | None \<Rightarrow> obj_get fs k)"
  by (simp add: obj_get_def map_of_obj_assign map_add_def split: option.splits)

lemma obj_get_obj_omit:
  "k \<notin> set ks \<Longrightarrow> obj_get (obj_omit ks fs) k = obj_get fs k"
  by (induction fs) (auto simp: obj_get_def obj_omit_def)

lemma obj_get_Nil: "obj_get [] k = JUndefined"
  by (simp add: obj_get_def)

lemma obj_get_Cons: "obj_get ((k', v) # fs) k = (if k = k' then v else obj_get fs k)"
  by (simp add: obj_get_def)

lemma firstPassOptions_fields:
  "obj_get (firstPassOptions conv extra ft m) ''pageRanges'' = JStr ''1''"
  "obj_get (firstPassOptions conv extra ft m) ''margin'' =
     JObj [(''bottom'', if nullish m then JStr ''35px'' else m)]"
  "obj_get (firstPassOptions conv extra ft m) ''footerTemplate'' = ft"
  "obj_get (firstPassOptions conv extra ft m) ''displayHeaderFooter'' = JBool True"
  "obj_get (firstPassOptions conv extra ft m) ''printBackground'' =
     JBool (obj_get extra ''printBackground'' = JStr ''true'')"
  "obj_get (firstPassOptions conv extra ft m) ''landscape'' =
     JBool (obj_get extra ''landscape'' = JStr ''true'')"
  by (simp_all add: firstPassOptions_def obj_get_obj_assign)

lemma secondPassOptions_fields:
  "obj_get (secondPassOptions conv extra ft m) ''pageRanges'' = JStr ''2-''"
  "obj_get (secondPassOptions conv extra ft m) ''margin'' =
     JObj [(''bottom'', if nullish m then JStr ''78px'' else m)]"
  "obj_get (secondPassOptions conv extra ft m) ''footerTemplate'' = ft"
  "obj_get (secondPassOptions conv extra ft m) ''displayHeaderFooter'' = JBool True"
  "obj_get (secondPassOptions conv extra ft m) ''printBackground'' =
     JBool (obj_get extra ''printBackground'' = JStr ''true'')"
  "obj_get (secondPassOptions conv extra ft m) ''landscape'' =
     JBool (obj_get extra ''landscape'' = JStr ''true'')"
  by (simp_all add: secondPassOptions_def obj_get_obj_assign)

lemma singlePassOptions_fields:
  "obj_get (singlePassOptions conv extra) ''scale'' =
     JNum (Number_js conv (if obj_get extra ''scale'' = JUndefined then JNum (Fin 1)
                           else obj_get extra ''scale''))"
  "obj_get (singlePassOptions conv extra) ''displayHeaderFooter'' =
     JBool (obj_get extra ''displayHeaderFooter'' = JStr ''true'')"
  "obj_get (singlePassOptions conv extra) ''printBackground'' =
     JBool (obj_get extra ''printBackground'' = JStr ''true'')"
  "obj_get (singlePassOptions conv extra) ''landscape'' =
     JBool (obj_get extra ''landscape'' = JStr ''true'')"
  by (simp_all add: singlePassOptions_def obj_get_obj_assign param_default_def)

lemma singlePassOptions_forward:
  "k \<notin> set [''scale'', ''displayHeaderFooter'', ''printBackground'', ''landscape'']
     \<Longrightarrow> obj_get (singlePassOptions conv extra) k = obj_get extra k"
  by (simp add: singlePassOptions_def obj_get_obj_assign)

lemma pdfExtraOptions_get:
  "k \<notin> set [''timeout'', ''waitUntil'', ''credentials'', ''emulateMediaType'']
     \<Longrightarrow> obj_get (pdfExtraOptions options) k = obj_get options k"
  unfolding pdfExtraOptions_def by (rule obj_get_obj_omit)

lemma screenshotOptions_fields:
  "obj_get (screenshotOptions conv extra) ''fullPage'' = JBool (obj_get extra ''fullPage'' = JStr ''true'')"
  "obj_get (screenshotOptions conv extra) ''omitBackground'' =
     JBool (obj_get extra ''omitBackground'' = JStr ''true'')"
  by (simp_all add: screenshotOptions_def obj_get_obj_assign)

lemma screenshotOptions_forward:
  "k \<notin> set [''fullPage'', ''omitBackground'', ''screenshotType'', ''quality'', ''type'']
     \<Longrightarrow> obj_get (screenshotOptions conv extra) k = obj_get extra k"
  by (simp add: screenshotOptions_def obj_get_obj_assign obj_get_obj_omit)

lemma screenshotExtraOptions_get:
  "k \<notin> set [''timeout'', ''waitUntil'', ''credentials'']
     \<Longrightarrow> obj_get (screenshotExtraOptions options) k = obj_get options k"
  unfolding screenshotExtraOptions_def by (rule obj_get_obj_omit)

section \<open>The trace of a request\<close>

lemma closePage_trace:
  "snd (closePage eng pg t) = t \<or> snd (closePage eng pg t) = t @ [IsClosed]
     \<or> snd (closePage eng pg t) = t @ [IsClosed, Close]"
  by (auto simp: closePage_def try_catch_def and_then_def call_def returns_def
      split: option.splits sum.splits prod.splits)

lemma closePage_never_throws: "fst (closePage eng pg t) = Inr ()"
  by (auto simp: closePage_def try_catch_def and_then_def call_def returns_def
      split: option.splits sum.splits prod.splits)

lemma closePage_render_calls [simp]:
  "render_calls (snd (closePage eng pg t)) = render_calls t"
  using closePage_trace [of eng pg t] by (auto simp: render_calls_def)

lemma closePage_merge_calls [simp]:
  "merge_calls (snd (closePage eng pg t)) = merge_calls t"
  using closePage_trace [of eng pg t] by (auto simp: merge_calls_def)

lemma closePage_keeps_Pdf [simp]:
  "Pdf opts \<in> set (snd (closePage eng pg t)) \<longleftrightarrow> Pdf opts \<in> set t"
  using closePage_trace [of eng pg t] by auto

lemma closePage_keeps_Screenshot [simp]:
  "Screenshot opts \<in> set (snd (closePage eng pg t)) \<longleftrightarrow> Screenshot opts \<in> set t"
  using closePage_trace [of eng pg t] by auto

lemma createPage_render_calls:
  "createPage conv eng url options authorization post postData t = (r, t1)
     \<Longrightarrow> render_calls t1 = render_calls t \<and> merge_calls t1 = merge_calls t"
  by (auto simp: createPage_def and_then_def call_def fire_def returns_def render_calls_def merge_calls_def
      split: sum.splits prod.splits if_splits)

lemma createPage_keeps:
  assumes "createPage conv eng url options authorization post postData t = (r, t1)"
  shows "Pdf opts \<in> set t1 \<longleftrightarrow> Pdf opts \<in> set t"
    and "Screenshot opts \<in> set t1 \<longleftrightarrow> Screenshot opts \<in> set t"
  using assms
  by (auto simp: createPage_def and_then_def call_def fire_def returns_def
      split: sum.splits prod.splits if_splits)

lemma openPdfPage_calls:
  "openPdfPage conv eng url options authorization post body t = (r, t1)
     \<Longrightarrow> render_calls t1 = render_calls t \<and> merge_calls t1 = merge_calls t"
  unfolding openPdfPage_def by (rule createPage_render_calls)

text \<open>
  When the page opens and is not yet closed at the end, the operation closes it exactly
  once, whatever the body returned or threw and whatever \<open>close\<close> answers. When
  \<open>createPage\<close> throws, nothing is closed.
\<close>

lemma with_page_closes_once:
  assumes "create t = (Inr pg, t1)" and "body pg t1 = (r, t2)" and "page_isClosed eng t2 = Inr False"
  shows "with_page eng create body t = (r, t2 @ [IsClosed, Close])"
  using assms
  by (simp add: with_page_def closePage_def try_catch_def and_then_def call_def returns_def
      split: sum.splits)

lemma with_page_leaks:
  assumes "create t = (Inl e, t1)"
  shows "with_page eng create body t = (Inl e, t1)"
  using assms by (simp add: with_page_def closePage_def try_catch_def returns_def)

lemma with_page_not_opened:
  "fst (create t) = Inl e \<Longrightarrow> fst (with_page eng create body t) = Inl e"
  by (cases "create t") (simp add: with_page_def)

section \<open>The sample collaborators\<close>

lemma sampleEngine_sel [simp]:
  "browser_newPage (sampleEngine navigation render) t = Inr Page"
  "page_emulateMediaType (sampleEngine navigation render) t v = Inr ()"
  "page_authenticate (sampleEngine navigation render) t v = Inr ()"
  "page_goto (sampleEngine navigation render) t u n w = navigation"
  "page_content (sampleEngine navigation render) t = Inr ''<html></html>''"
  "page_pdf (sampleEngine navigation render) t opts = render opts"
  "page_screenshot (sampleEngine navigation render) t opts = Inr [137, 80]"
  "waitForAnimations (sampleEngine navigation render) t opts n = Inr ()"
  "page_isClosed (sampleEngine navigation render) t = Inr False"
  "page_close (sampleEngine navigation render) t = Inr ()"
  by (simp_all add: sampleEngine_def)

lemma sampleOptions_get [simp]:
  "obj_get sampleOptions ''timeout'' = JUndefined"
  "obj_get sampleOptions ''waitUntil'' = JUndefined"
  "obj_get sampleOptions ''credentials'' = JUndefined"
  "obj_get sampleOptions ''emulateMediaType'' = JUndefined"
  "obj_get sampleOptions ''animationTimeout'' = JUndefined"
  "obj_get sampleOptions ''landscape'' = JStr ''true''"
  "obj_get sampleOptions ''fullPage'' = JStr ''yes''"
  "obj_get sampleOptions ''format'' = JStr ''A4''"
  "obj_get sampleOptions ''scale'' = JUndefined"
  "obj_get sampleOptions ''printBackground'' = JUndefined"
  "obj_get sampleOptions ''displayHeaderFooter'' = JUndefined"
  "obj_get sampleOptions ''pageRanges'' = JUndefined"
  by (simp_all add: sampleOptions_def obj_get_def)

lemma sample_open:
  "openPdfPage noNumber (sampleEngine (Inr ()) render) ''http://a'' [] JUndefined JUndefined
      (JObj [(''footerTemplate'', JStr ''<p></p>'')]) [] = (Inr Page, openedTrace)"
  by (simp add: openPdfPage_def createPage_def and_then_def call_def fire_def returns_def
      obj_get_def js_or_def param_default_def num_or_def noNumber_def openedTrace_def)

lemma sample_open_plain:
  "openPdfPage noNumber (sampleEngine (Inr ()) render) ''http://a'' sampleOptions JUndefined JUndefined
      JUndefined [] = (Inr Page, plainTrace)"
  by (simp add: openPdfPage_def createPage_def and_then_def call_def fire_def returns_def
      obj_get_Cons obj_get_Nil js_or_def param_default_def num_or_def noNumber_def plainTrace_def)

lemma sample_open_fails:
  "openPdfPage noNumber (sampleEngine (Inl (Thrown 7)) render) ''http://a'' sampleOptions JUndefined
      JUndefined JUndefined [] = (Inl (Thrown 7), plainTrace)"
  by (simp add: openPdfPage_def createPage_def and_then_def call_def fire_def returns_def
      obj_get_Cons obj_get_Nil js_or_def param_default_def num_or_def noNumber_def plainTrace_def)

lemma sample_openPage:
  "openPage noNumber (sampleEngine navigation render) ''http://a'' sampleOptions JUndefined JUndefined
      JUndefined [] = (map_sum id (\<lambda>u. Page) navigation, failedTrace)"
  by (cases navigation)
     (simp_all add: openPage_def createPage_def and_then_def call_def fire_def returns_def
      obj_get_Cons obj_get_Nil js_or_def param_default_def num_or_def noNumber_def failedTrace_def)

lemma sample_navigation_fails:
  "fst (createPage conv (sampleEngine (Inl e) render) url options authorization post postData t) = Inl e"
  by (simp add: createPage_def and_then_def call_def fire_def returns_def)

lemma samplePlatform_sel [simp]:
  "to_number samplePlatform = noNumber"
  "new_URL samplePlatform u = Inr \<lparr>hostname = ''a'', pathname = ''/''\<rparr>"
  by (simp_all add: samplePlatform_def)

lemma sampleRequest_sel [simp]:
  "q_url (sampleRequest url kind) = url"
  "q_type (sampleRequest url kind) = kind"
  "q_filename (sampleRequest url kind) = None"
  "q_authorization (sampleRequest url kind) = JUndefined"
  "q_options (sampleRequest url kind) = sampleOptions"
  "req_body (sampleRequest url kind) = JUndefined"
  "req_method (sampleRequest url kind) = ''GET''"
  by (simp_all add: sampleRequest_def)

section \<open>The PDF operation\<close>

lemma pdfRender_two_pass:
  assumes "\<not> nullish (obj_get fs ''footerTemplate'')"
  shows "pdfRender conv lib eng extra (JObj fs) t =
     (case page_pdf eng t (firstPassOptions conv extra (obj_get fs ''footerTemplate'')
                             (obj_get fs ''footerFirstMarginBottom'')) of
        Inl e \<Rightarrow> (Inl e, t @ [Pdf (firstPassOptions conv extra (obj_get fs ''footerTemplate'')
                                      (obj_get fs ''footerFirstMarginBottom''))])
      | Inr pdf1 \<Rightarrow>
          (case page_pdf eng (t @ [Pdf (firstPassOptions conv extra (obj_get fs ''footerTemplate'')
                                          (obj_get fs ''footerFirstMarginBottom''))])
                  (secondPassOptions conv extra (obj_get fs ''footerTemplate'')
                     (obj_get fs ''footerOtherMarginBottom'')) of
             Inl e \<Rightarrow> (Inr pdf1,
                        t @ [Pdf (firstPassOptions conv extra (obj_get fs ''footerTemplate'')
                                    (obj_get fs ''footerFirstMarginBottom'')),
                             Pdf (secondPassOptions conv extra (obj_get fs ''footerTemplate'')
                                    (obj_get fs ''footerOtherMarginBottom''))])
           | Inr pdf2 \<Rightarrow> (mergePdfs lib pdf1 pdf2,
                          t @ [Pdf (firstPassOptions conv extra (obj_get fs ''footerTemplate'')
                                      (obj_get fs ''footerFirstMarginBottom'')),
                               Pdf (secondPassOptions conv extra (obj_get fs ''footerTemplate'')
                                      (obj_get fs ''footerOtherMarginBottom'')),
                               MergePdfs pdf1 pdf2])))"
  using assms
  by (simp add: pdfRender_def and_then_def lift_def call_def try_catch_def returns_def fire_def
      split: sum.splits)

lemma pdfRender_single_pass:
  assumes "get_prop body ''footerTemplate'' = Inr ft" and "nullish ft"
  shows "pdfRender conv lib eng extra body t =
           (page_pdf eng t (singlePassOptions conv extra), t @ [Pdf (singlePassOptions conv extra)])"
  using assms
  by (cases body) (simp_all add: pdfRender_def and_then_def lift_def call_def)

lemma pdf_opened:
  assumes "openPdfPage conv eng url options authorization post body t = (Inr pg, t1)"
  shows "pdf conv lib eng url options authorization post body t =
     (fst (pdfRender conv lib eng (pdfExtraOptions options) (param_default body (JStr [])) t1),
      snd (closePage eng (Some pg)
             (snd (pdfRender conv lib eng (pdfExtraOptions options) (param_default body (JStr [])) t1))))"
  using assms by (simp add: pdf_def with_page_def split: prod.splits)

lemma pdf_not_opened:
  assumes "openPdfPage conv eng url options authorization post body t = (Inl e, t1)"
  shows "pdf conv lib eng url options authorization post body t = (Inl e, t1)"
  using assms by (simp add: pdf_def with_page_def closePage_def try_catch_def returns_def)

text \<open>
  C2. In two-pass mode (the request body carries a non-null \<open>footerTemplate\<close>), when the
  first render, with page range \<open>1\<close>, returns a buffer and the second render, with page
  range \<open>2-\<close>, throws, \<open>pdf\<close> returns the first buffer unchanged: the error of the second
  render is not propagated, and the merge step is not invoked.
\<close>

theorem pdf_second_pass_failure:
  assumes opened: "openPdfPage conv eng url options authorization post (JObj fs) t = (Inr pg, t1)"
    and footer: "\<not> nullish (obj_get fs ''footerTemplate'')"
    and first: "page_pdf eng t1
                  (firstPassOptions conv (pdfExtraOptions options) (obj_get fs ''footerTemplate'')
                     (obj_get fs ''footerFirstMarginBottom'')) = Inr pdf1"
    and second: "page_pdf eng
                   (t1 @ [Pdf (firstPassOptions conv (pdfExtraOptions options)
                                 (obj_get fs ''footerTemplate'') (obj_get fs ''footerFirstMarginBottom''))])
                   (secondPassOptions conv (pdfExtraOptions options) (obj_get fs ''footerTemplate'')
                      (obj_get fs ''footerOtherMarginBottom'')) = Inl e"
  shows "fst (pdf conv lib eng url options authorization post (JObj fs) t) = Inr pdf1
       \<and> merge_calls (snd (pdf conv lib eng url options authorization post (JObj fs) t)) = merge_calls t"
proof -
  have body: "param_default (JObj fs) (JStr []) = JObj fs"
    by (simp add: param_default_def)
  have render: "pdfRender conv lib eng (pdfExtraOptions options) (JObj fs) t1 =
      (Inr pdf1,
       t1 @ [Pdf (firstPassOptions conv (pdfExtraOptions options) (obj_get fs ''footerTemplate'')
                    (obj_get fs ''footerFirstMarginBottom'')),
             Pdf (secondPassOptions conv (pdfExtraOptions options) (obj_get fs ''footerTemplate'')
                    (obj_get fs ''footerOtherMarginBottom''))])"
    by (simp add: pdfRender_two_pass [OF footer] first second)
  from openPdfPage_calls [OF opened] have "merge_calls t1 = merge_calls t" by simp
  then show ?thesis
    by (simp add: pdf_opened [OF opened] body render) (simp add: merge_calls_def)
qed

text \<open>
  An instance of C2: the engine renders the cover and throws on the page range \<open>2-\<close>.
\<close>

theorem pdf_second_pass_failure_witness:
  "fst (pdf noNumber byteLib (sampleEngine (Inr ()) bodyPassFails) ''http://a'' [] JUndefined JUndefined
          (JObj [(''footerTemplate'', JStr ''<p></p>'')]) []) = Inr [37, 80]"
  using pdf_second_pass_failure [of noNumber "sampleEngine (Inr ()) bodyPassFails" "''http://a''" "[]"
      JUndefined JUndefined "[(''footerTemplate'', JStr ''<p></p>'')]" "[]" Page openedTrace
      "[37, 80]" "Thrown 2" byteLib]
  by (simp add: sample_open nullish_def obj_get_def bodyPassFails_def
      firstPassOptions_def secondPassOptions_def obj_assign_def pdfExtraOptions_def obj_omit_def)

text \<open>
  C3, as amended. For a request whose body carries a non-null \<open>footerTemplate\<close>, whose page
  opens and whose first render returns, \<open>pdf\<close> makes exactly two render calls on that page.
  The first has page range \<open>1\<close>, bottom margin \<open>footerFirstMarginBottom\<close> or \<open>35px\<close> when
  that is null or absent, the footer template, and \<open>displayHeaderFooter\<close> true. The second
  has page range \<open>2-\<close>, bottom margin \<open>footerOtherMarginBottom\<close> or \<open>78px\<close>, the same
  footer template, and \<open>displayHeaderFooter\<close> true. When the second render returns as well,
  the merge step is invoked once, on the two buffers, and its result is the result of \<open>pdf\<close>.
\<close>

theorem pdf_two_pass:
  assumes opened: "openPdfPage conv eng url options authorization post (JObj fs) t = (Inr pg, t1)"
    and footer: "\<not> nullish (obj_get fs ''footerTemplate'')"
    and first: "page_pdf eng t1
                  (firstPassOptions conv (pdfExtraOptions options) (obj_get fs ''footerTemplate'')
                     (obj_get fs ''footerFirstMarginBottom'')) = Inr pdf1"
  shows "\<exists>passA passB.
           render_calls (snd (pdf conv lib eng url options authorization post (JObj fs) t))
             = render_calls t @ [Pdf passA, Pdf passB]
         \<and> obj_get passA ''pageRanges'' = JStr ''1''
         \<and> obj_get passA ''margin'' =
             JObj [(''bottom'', if nullish (obj_get fs ''footerFirstMarginBottom'') then JStr ''35px''
                                else obj_get fs ''footerFirstMarginBottom'')]
         \<and> obj_get passA ''footerTemplate'' = obj_get fs ''footerTemplate''
         \<and> obj_get passA ''displayHeaderFooter'' = JBool True
         \<and> obj_get passB ''pageRanges'' = JStr ''2-''
         \<and> obj_get passB ''margin'' =
             JObj [(''bottom'', if nullish (obj_get fs ''footerOtherMarginBottom'') then JStr ''78px''
                                else obj_get fs ''footerOtherMarginBottom'')]
         \<and> obj_get passB ''footerTemplate'' = obj_get fs ''footerTemplate''
         \<and> obj_get passB ''displayHeaderFooter'' = JBool True
         \<and> (\<forall>pdf2. page_pdf eng (t1 @ [Pdf passA]) passB = Inr pdf2 \<longrightarrow>
               fst (pdf conv lib eng url options authorization post (JObj fs) t) = mergePdfs lib pdf1 pdf2
             \<and> merge_calls (snd (pdf conv lib eng url options authorization post (JObj fs) t))
                 = merge_calls t @ [MergePdfs pdf1 pdf2])"
proof -
  let ?A = "firstPassOptions conv (pdfExtraOptions options) (obj_get fs ''footerTemplate'')
              (obj_get fs ''footerFirstMarginBottom'')"
  let ?B = "secondPassOptions conv (pdfExtraOptions options) (obj_get fs ''footerTemplate'')
              (obj_get fs ''footerOtherMarginBottom'')"
  let ?R = "pdf conv lib eng url options authorization post (JObj fs) t"
  have body: "param_default (JObj fs) (JStr []) = JObj fs"
    by (simp add: param_default_def)
  from openPdfPage_calls [OF opened]
  have t1: "render_calls t1 = render_calls t" "merge_calls t1 = merge_calls t"
    by simp_all
  have calls: "render_calls (snd ?R) = render_calls t @ [Pdf ?A, Pdf ?B]"
    using t1(1)
    by (simp add: pdf_opened [OF opened] body pdfRender_two_pass [OF footer] first split: sum.splits)
       (simp add: render_calls_def)
  have merge: "fst ?R = mergePdfs lib pdf1 pdf2
             \<and> merge_calls (snd ?R) = merge_calls t @ [MergePdfs pdf1 pdf2]"
    if "page_pdf eng (t1 @ [Pdf ?A]) ?B = Inr pdf2" for pdf2
    using t1(2) that
    by (simp add: pdf_opened [OF opened] body pdfRender_two_pass [OF footer] first)
       (simp add: merge_calls_def)
  show ?thesis
    apply (rule exI [of _ ?A])
    apply (rule exI [of _ ?B])
    using calls merge
    by (simp add: firstPassOptions_fields secondPassOptions_fields)
qed

text \<open>
  An instance of C3 as amended: both renders return, and the result is the merged document.
\<close>

theorem pdf_two_pass_witness:
  "fst (pdf noNumber byteLib (sampleEngine (Inr ()) everyPassReturns) ''http://a'' [] JUndefined
          JUndefined (JObj [(''footerTemplate'', JStr ''<p></p>'')]) []) = Inr [1, 2, 3]
   \<and> length (render_calls (snd (pdf noNumber byteLib (sampleEngine (Inr ()) everyPassReturns)
          ''http://a'' [] JUndefined JUndefined (JObj [(''footerTemplate'', JStr ''<p></p>'')]) []))) = 2"
proof -
  have footer: "\<not> nullish (obj_get [(''footerTemplate'', JStr ''<p></p>'')] ''footerTemplate'')"
    by (simp add: nullish_def obj_get_def)
  have first: "page_pdf (sampleEngine (Inr ()) everyPassReturns) openedTrace
                 (firstPassOptions noNumber (pdfExtraOptions [])
                    (obj_get [(''footerTemplate'', JStr ''<p></p>'')] ''footerTemplate'')
                    (obj_get [(''footerTemplate'', JStr ''<p></p>'')] ''footerFirstMarginBottom''))
               = Inr [1]"
    by (simp add: everyPassReturns_def firstPassOptions_fields)
  from pdf_two_pass [OF sample_open footer first, of byteLib]
  show ?thesis
    by (auto simp: everyPassReturns_def byteLib_merge render_calls_def)
qed

text \<open>
  C3 as stated fails. When the first render throws there is one render call, not two, and
  \<open>pdf\<close> throws; when the second render throws the result is the first buffer and the
  merge step is never invoked.
\<close>

theorem pdf_two_pass_counterexample:
  "length (render_calls (snd (pdf noNumber byteLib (sampleEngine (Inr ()) everyPassFails)
      ''http://a'' [] JUndefined JUndefined (JObj [(''footerTemplate'', JStr ''<p></p>'')]) []))) = 1
   \<and> fst (pdf noNumber byteLib (sampleEngine (Inr ()) everyPassFails)
      ''http://a'' [] JUndefined JUndefined (JObj [(''footerTemplate'', JStr ''<p></p>'')]) [])
       = Inl (Thrown 1)
   \<and> fst (pdf noNumber byteLib (sampleEngine (Inr ()) bodyPassFails)
      ''http://a'' [] JUndefined JUndefined (JObj [(''footerTemplate'', JStr ''<p></p>'')]) [])
       = Inr [37, 80]
   \<and> merge_calls (snd (pdf noNumber byteLib (sampleEngine (Inr ()) bodyPassFails)
      ''http://a'' [] JUndefined JUndefined (JObj [(''footerTemplate'', JStr ''<p></p>'')]) [])) = []"
proof -
  have footer: "\<not> nullish (obj_get [(''footerTemplate'', JStr ''<p></p>'')] ''footerTemplate'')"
    by (simp add: nullish_def obj_get_def)
  have body: "param_default (JObj [(''footerTemplate'', JStr ''<p></p>'')]) (JStr [])
                = JObj [(''footerTemplate'', JStr ''<p></p>'')]"
    by (simp add: param_default_def)
  have fails: "pdfRender noNumber byteLib (sampleEngine (Inr ()) everyPassFails) (pdfExtraOptions [])
                 (JObj [(''footerTemplate'', JStr ''<p></p>'')]) openedTrace
               = (Inl (Thrown 1),
                  openedTrace @ [Pdf (firstPassOptions noNumber (pdfExtraOptions [])
                     (obj_get [(''footerTemplate'', JStr ''<p></p>'')] ''footerTemplate'')
                     (obj_get [(''footerTemplate'', JStr ''<p></p>'')] ''footerFirstMarginBottom''))])"
    by (simp add: pdfRender_two_pass [OF footer] everyPassFails_def)
  have cover: "pdfRender noNumber byteLib (sampleEngine (Inr ()) bodyPassFails) (pdfExtraOptions [])
                 (JObj [(''footerTemplate'', JStr ''<p></p>'')]) openedTrace
               = (Inr [37, 80],
                  openedTrace @ [Pdf (firstPassOptions noNumber (pdfExtraOptions [])
                     (obj_get [(''footerTemplate'', JStr ''<p></p>'')] ''footerTemplate'')
                     (obj_get [(''footerTemplate'', JStr ''<p></p>'')] ''footerFirstMarginBottom'')),
                   Pdf (secondPassOptions noNumber (pdfExtraOptions [])
                     (obj_get [(''footerTemplate'', JStr ''<p></p>'')] ''footerTemplate'')
                     (obj_get [(''footerTemplate'', JStr ''<p></p>'')] ''footerOtherMarginBottom''))])"
    by (simp add: pdfRender_two_pass [OF footer] bodyPassFails_def firstPassOptions_fields
        secondPassOptions_fields)
  show ?thesis
    by (simp add: pdf_opened [OF sample_open] body fails cover)
       (simp add: render_calls_def merge_calls_def openedTrace_def)
qed

text \<open>
  C4, as amended. For a request with no footer template (\<open>footerTemplate\<close> null or absent)
  whose page opens, \<open>pdf\<close> makes exactly one render call and returns what that call
  returns or throws; the merge step is not invoked. The call carries
  \<open>displayHeaderFooter\<close>, \<open>printBackground\<close> and \<open>landscape\<close> as booleans that are true
  exactly when the option is the string \<open>"true"\<close>, \<open>scale\<close> as \<open>Number(scale)\<close> with
  \<open>1.0\<close> for an absent scale, and every other extra option as it was given.
\<close>

theorem pdf_single_pass:
  assumes opened: "openPdfPage conv eng url options authorization post body t = (Inr pg, t1)"
    and nofooter: "get_prop (param_default body (JStr [])) ''footerTemplate'' = Inr ft" "nullish ft"
  shows "render_calls (snd (pdf conv lib eng url options authorization post body t))
           = render_calls t @ [Pdf (singlePassOptions conv (pdfExtraOptions options))]
       \<and> merge_calls (snd (pdf conv lib eng url options authorization post body t)) = merge_calls t
       \<and> fst (pdf conv lib eng url options authorization post body t)
           = page_pdf eng t1 (singlePassOptions conv (pdfExtraOptions options))
       \<and> obj_get (singlePassOptions conv (pdfExtraOptions options)) ''displayHeaderFooter''
           = JBool (obj_get options ''displayHeaderFooter'' = JStr ''true'')
       \<and> obj_get (singlePassOptions conv (pdfExtraOptions options)) ''printBackground''
           = JBool (obj_get options ''printBackground'' = JStr ''true'')
       \<and> obj_get (singlePassOptions conv (pdfExtraOptions options)) ''landscape''
           = JBool (obj_get options ''landscape'' = JStr ''true'')
       \<and> obj_get (singlePassOptions conv (pdfExtraOptions options)) ''scale''
           = JNum (Number_js conv (if obj_get options ''scale'' = JUndefined then JNum (Fin 1)
                                   else obj_get options ''scale''))
       \<and> (\<forall>k. k \<notin> set [''timeout'', ''waitUntil'', ''credentials'', ''emulateMediaType'',
                          ''scale'', ''displayHeaderFooter'', ''printBackground'', ''landscape'']
              \<longrightarrow> obj_get (singlePassOptions conv (pdfExtraOptions options)) k = obj_get options k)"
proof -
  from openPdfPage_calls [OF opened]
  have t1: "render_calls t1 = render_calls t" "merge_calls t1 = merge_calls t"
    by simp_all
  have run: "pdf conv lib eng url options authorization post body t =
      (page_pdf eng t1 (singlePassOptions conv (pdfExtraOptions options)),
       snd (closePage eng (Some pg) (t1 @ [Pdf (singlePassOptions conv (pdfExtraOptions options))])))"
    by (simp add: pdf_opened [OF opened] pdfRender_single_pass [OF nofooter])
  have calls: "render_calls (snd (pdf conv lib eng url options authorization post body t))
           = render_calls t @ [Pdf (singlePassOptions conv (pdfExtraOptions options))]"
    using t1(1) by (simp add: run) (simp add: render_calls_def)
  have merges: "merge_calls (snd (pdf conv lib eng url options authorization post body t)) = merge_calls t"
    using t1(2) by (simp add: run) (simp add: merge_calls_def)
  have forward: "obj_get (singlePassOptions conv (pdfExtraOptions options)) k = obj_get options k"
    if "k \<notin> set [''timeout'', ''waitUntil'', ''credentials'', ''emulateMediaType'',
                     ''scale'', ''displayHeaderFooter'', ''printBackground'', ''landscape'']" for k
    using that by (simp add: singlePassOptions_forward pdfExtraOptions_get)
  show ?thesis
    using calls merges forward
    by (simp add: run singlePassOptions_fields pdfExtraOptions_get)
qed

text \<open>
  An instance of C4 as amended, with the options \<open>landscape=true\<close>, \<open>fullPage=yes\<close> and
  \<open>format=A4\<close>.
\<close>

theorem pdf_single_pass_witness:
  "length (render_calls (snd (pdf noNumber byteLib (sampleEngine (Inr ()) everyPassReturns) ''http://a''
      sampleOptions JUndefined JUndefined JUndefined []))) = 1
   \<and> merge_calls (snd (pdf noNumber byteLib (sampleEngine (Inr ()) everyPassReturns) ''http://a''
      sampleOptions JUndefined JUndefined JUndefined [])) = []
   \<and> fst (pdf noNumber byteLib (sampleEngine (Inr ()) everyPassReturns) ''http://a''
      sampleOptions JUndefined JUndefined JUndefined []) = Inr [1]
   \<and> obj_get (singlePassOptions noNumber (pdfExtraOptions sampleOptions)) ''landscape'' = JBool True
   \<and> obj_get (singlePassOptions noNumber (pdfExtraOptions sampleOptions)) ''printBackground'' = JBool False
   \<and> obj_get (singlePassOptions noNumber (pdfExtraOptions sampleOptions)) ''scale'' = JNum (Fin 1)
   \<and> obj_get (singlePassOptions noNumber (pdfExtraOptions sampleOptions)) ''format'' = JStr ''A4''"
proof -
  have nofooter: "get_prop (param_default JUndefined (JStr [])) ''footerTemplate'' = Inr JUndefined"
    by (simp add: param_default_def)
  have null: "nullish JUndefined"
    by (simp add: nullish_def)
  have pages: "obj_get (singlePassOptions noNumber (pdfExtraOptions sampleOptions)) ''pageRanges'' = JUndefined"
    by (simp add: singlePassOptions_forward pdfExtraOptions_get)
  from pdf_single_pass [OF sample_open_plain nofooter null, of byteLib]
  show ?thesis
    by (simp add: render_calls_def merge_calls_def everyPassReturns_def pages)
qed

text \<open>
  C4 as stated fails: when navigation throws, the page never opens and \<open>pdf\<close> makes no
  render call at all.
\<close>

theorem pdf_single_pass_counterexample:
  "render_calls (snd (pdf noNumber byteLib (sampleEngine (Inl (Thrown 7)) everyPassReturns) ''http://a''
      sampleOptions JUndefined JUndefined JUndefined [])) = []
   \<and> fst (pdf noNumber byteLib (sampleEngine (Inl (Thrown 7)) everyPassReturns) ''http://a''
      sampleOptions JUndefined JUndefined JUndefined []) = Inl (Thrown 7)"
  by (simp add: pdf_not_opened [OF sample_open_fails]) (simp add: render_calls_def plainTrace_def)

section \<open>Boolean options\<close>

lemma pdfRender_Pdf_events:
  assumes "Pdf opts \<in> set (snd (pdfRender conv lib eng extra body t))" and "Pdf opts \<notin> set t"
  shows "(\<exists>ft m. opts = firstPassOptions conv extra ft m)
       \<or> (\<exists>ft m. opts = secondPassOptions conv extra ft m)
       \<or> opts = singlePassOptions conv extra"
  using assms
  by (auto simp: pdfRender_def and_then_def lift_def call_def try_catch_def returns_def fire_def
      split: sum.splits prod.splits if_splits option.splits)

lemma screenshotRender_Screenshot_events:
  assumes "Screenshot opts \<in> set (snd (screenshotRender conv eng options extra t))"
    and "Screenshot opts \<notin> set t"
  shows "opts = screenshotOptions conv extra"
  using assms
  by (auto simp: screenshotRender_def and_then_def call_def returns_def fire_def
      split: sum.splits prod.splits if_splits)

lemma pdf_Pdf_events:
  assumes "Pdf opts \<in> set (snd (pdf conv lib eng url options authorization post body t))"
    and "Pdf opts \<notin> set t"
  shows "(\<exists>ft m. opts = firstPassOptions conv (pdfExtraOptions options) ft m)
       \<or> (\<exists>ft m. opts = secondPassOptions conv (pdfExtraOptions options) ft m)
       \<or> opts = singlePassOptions conv (pdfExtraOptions options)"
proof (cases "openPdfPage conv eng url options authorization post body t")
  case (Pair r t1)
  then have keep: "Pdf opts \<notin> set t1"
    using assms(2) createPage_keeps(1) unfolding openPdfPage_def by blast
  show ?thesis
  proof (cases r)
    case (Inl e)
    with Pair assms(1) keep show ?thesis
      by (simp add: pdf_not_opened)
  next
    case (Inr pg)
    with Pair assms(1) have "Pdf opts \<in> set (snd (pdfRender conv lib eng (pdfExtraOptions options)
                               (param_default body (JStr [])) t1))"
      by (simp add: pdf_opened)
    from pdfRender_Pdf_events [OF this keep] show ?thesis .
  qed
qed

lemma screenshot_Screenshot_events:
  assumes "Screenshot opts \<in> set (snd (screenshot conv eng url options authorization post body t))"
    and "Screenshot opts \<notin> set t"
  shows "opts = screenshotOptions conv (screenshotExtraOptions options)"
proof (cases "openPage conv eng url options authorization post body t")
  case (Pair r t1)
  then have keep: "Screenshot opts \<notin> set t1"
    using assms(2) createPage_keeps(2) unfolding openPage_def by blast
  show ?thesis
  proof (cases r)
    case (Inl e)
    with Pair assms(1) keep show ?thesis
      by (simp add: screenshot_def with_page_def)
  next
    case (Inr pg)
    with Pair assms(1) have "Screenshot opts \<in> set (snd (screenshotRender conv eng options
                               (screenshotExtraOptions options) t1))"
      by (simp add: screenshot_def with_page_def split: prod.splits)
    from screenshotRender_Screenshot_events [OF this keep] show ?thesis .
  qed
qed

lemma sample_pdf_call:
  "Pdf (singlePassOptions noNumber (pdfExtraOptions sampleOptions))
     \<in> set (snd (pdf noNumber byteLib (sampleEngine (Inr ()) everyPassReturns) ''http://a'' sampleOptions
                  JUndefined JUndefined JUndefined []))"
  by (simp add: pdf_opened [OF sample_open_plain] param_default_def
      pdfRender_single_pass [of "JStr []" JUndefined] nullish_def)

lemma sample_screenshot_call:
  "Screenshot (screenshotOptions noNumber (screenshotExtraOptions sampleOptions))
     \<in> set (snd (screenshot noNumber (sampleEngine (Inr ()) everyPassReturns) ''http://a'' sampleOptions
                  JUndefined JUndefined JUndefined []))"
proof -
  have width: "obj_get sampleOptions ''width'' = JUndefined" "obj_get sampleOptions ''height'' = JUndefined"
    by (simp_all add: sampleOptions_def obj_get_def)
  have opened: "openPage noNumber (sampleEngine (Inr ()) everyPassReturns) ''http://a'' sampleOptions
                  JUndefined JUndefined JUndefined [] = (Inr Page, failedTrace)"
    by (simp add: sample_openPage)
  have render: "screenshotRender noNumber (sampleEngine (Inr ()) everyPassReturns) sampleOptions
                  (screenshotExtraOptions sampleOptions) failedTrace
      = (Inr (obj_get (screenshotExtraOptions sampleOptions) ''screenshotType'', [137, 80]),
         failedTrace @ [SetViewport (Fin 800) (Fin 600),
                        Screenshot (screenshotOptions noNumber (screenshotExtraOptions sampleOptions))])"
    by (simp add: screenshotRender_def and_then_def call_def fire_def returns_def js_or_def
        screenshotExtraOptions_get width)
  have shot: "screenshot noNumber (sampleEngine (Inr ()) everyPassReturns) ''http://a'' sampleOptions
                  JUndefined JUndefined JUndefined []
      = (Inr (obj_get (screenshotExtraOptions sampleOptions) ''screenshotType'', [137, 80]),
         (failedTrace @ [SetViewport (Fin 800) (Fin 600),
                        Screenshot (screenshotOptions noNumber (screenshotExtraOptions sampleOptions))])
          @ [IsClosed, Close])"
    by (simp add: screenshot_def with_page_def opened render closePage_def try_catch_def
        and_then_def call_def returns_def)
  show ?thesis
    by (simp add: shot)
qed

text \<open>
  C8, as amended. Let a string \<open>s\<close> be supplied for an option \<open>k\<close>. If \<open>k\<close> is
  \<open>printBackground\<close> or \<open>landscape\<close>, every render call that \<open>pdf\<close> makes carries \<open>k\<close> as
  the boolean \<open>s = "true"\<close>. If \<open>k\<close> is \<open>fullPage\<close> or \<open>omitBackground\<close>, every capture
  call that \<open>screenshot\<close> makes carries \<open>k\<close> as the boolean \<open>s = "true"\<close>. So in the
  operation that coerces it the option is true exactly for the literal \<open>"true"\<close> and false
  for every other string.
\<close>

theorem boolean_option_coercion:
  assumes "obj_get options k = JStr s"
  shows "(k \<in> {''printBackground'', ''landscape''} \<longrightarrow>
            (\<forall>opts. Pdf opts \<in> set (snd (pdf conv lib eng url options authorization post body t))
                    \<and> Pdf opts \<notin> set t \<longrightarrow> obj_get opts k = JBool (s = ''true'')))
       \<and> (k \<in> {''fullPage'', ''omitBackground''} \<longrightarrow>
            (\<forall>opts. Screenshot opts \<in> set (snd (screenshot conv eng url options authorization post body t))
                    \<and> Screenshot opts \<notin> set t \<longrightarrow> obj_get opts k = JBool (s = ''true'')))"
proof (intro conjI impI allI)
  fix opts
  assume k: "k \<in> {''printBackground'', ''landscape''}"
    and ev: "Pdf opts \<in> set (snd (pdf conv lib eng url options authorization post body t))
             \<and> Pdf opts \<notin> set t"
  from k have extra: "obj_get (pdfExtraOptions options) k = JStr s"
    using assms by (auto simp: pdfExtraOptions_get)
  from ev pdf_Pdf_events [of opts conv lib eng url options authorization post body t]
  consider ft m where "opts = firstPassOptions conv (pdfExtraOptions options) ft m"
    | ft m where "opts = secondPassOptions conv (pdfExtraOptions options) ft m"
    | "opts = singlePassOptions conv (pdfExtraOptions options)"
    by blast
  then show "obj_get opts k = JBool (s = ''true'')"
    using k extra
    by cases (auto simp: firstPassOptions_fields secondPassOptions_fields singlePassOptions_fields)
next
  fix opts
  assume k: "k \<in> {''fullPage'', ''omitBackground''}"
    and ev: "Screenshot opts \<in> set (snd (screenshot conv eng url options authorization post body t))
             \<and> Screenshot opts \<notin> set t"
  from k have extra: "obj_get (screenshotExtraOptions options) k = JStr s"
    using assms by (auto simp: screenshotExtraOptions_get)
  from ev screenshot_Screenshot_events [of opts conv eng url options authorization post body t]
  have "opts = screenshotOptions conv (screenshotExtraOptions options)"
    by blast
  then show "obj_get opts k = JBool (s = ''true'')"
    using k extra by (auto simp: screenshotOptions_fields)
qed

text \<open>
  An instance of C8 as amended: \<open>landscape=true\<close> reaches the render call as \<open>true\<close>, and
  \<open>fullPage=yes\<close> reaches the capture call as \<open>false\<close>.
\<close>

theorem boolean_option_coercion_witness:
  "Pdf (singlePassOptions noNumber (pdfExtraOptions sampleOptions))
     \<in> set (snd (pdf noNumber byteLib (sampleEngine (Inr ()) everyPassReturns) ''http://a'' sampleOptions
                  JUndefined JUndefined JUndefined []))
   \<and> obj_get (singlePassOptions noNumber (pdfExtraOptions sampleOptions)) ''landscape'' = JBool True
   \<and> Screenshot (screenshotOptions noNumber (screenshotExtraOptions sampleOptions))
     \<in> set (snd (screenshot noNumber (sampleEngine (Inr ()) everyPassReturns) ''http://a'' sampleOptions
                  JUndefined JUndefined JUndefined []))
   \<and> obj_get (screenshotOptions noNumber (screenshotExtraOptions sampleOptions)) ''fullPage'' = JBool False"
  using sample_pdf_call sample_screenshot_call
    boolean_option_coercion [of sampleOptions "''landscape''" "''true''" noNumber byteLib
      "sampleEngine (Inr ()) everyPassReturns" "''http://a''" JUndefined JUndefined JUndefined "[]"]
    boolean_option_coercion [of sampleOptions "''fullPage''" "''yes''" noNumber byteLib
      "sampleEngine (Inr ()) everyPassReturns" "''http://a''" JUndefined JUndefined JUndefined "[]"]
  by simp

text \<open>
  C8 as stated fails: each operation coerces two of the four options only. \<open>pdf\<close> hands
  \<open>fullPage=yes\<close> to the render call as the string \<open>"yes"\<close>, and \<open>screenshot\<close> hands
  \<open>landscape=true\<close> to the capture call as the string \<open>"true"\<close>, neither of them a boolean.
\<close>

theorem boolean_option_forwarded_counterexample:
  "obj_get sampleOptions ''fullPage'' = JStr ''yes''
   \<and> Pdf (singlePassOptions noNumber (pdfExtraOptions sampleOptions))
     \<in> set (snd (pdf noNumber byteLib (sampleEngine (Inr ()) everyPassReturns) ''http://a'' sampleOptions
                  JUndefined JUndefined JUndefined []))
   \<and> obj_get (singlePassOptions noNumber (pdfExtraOptions sampleOptions)) ''fullPage'' = JStr ''yes''
   \<and> obj_get sampleOptions ''landscape'' = JStr ''true''
   \<and> Screenshot (screenshotOptions noNumber (screenshotExtraOptions sampleOptions))
     \<in> set (snd (screenshot noNumber (sampleEngine (Inr ()) everyPassReturns) ''http://a'' sampleOptions
                  JUndefined JUndefined JUndefined []))
   \<and> obj_get (screenshotOptions noNumber (screenshotExtraOptions sampleOptions)) ''landscape''
       = JStr ''true''"
  using sample_pdf_call sample_screenshot_call
  by (simp add: singlePassOptions_forward pdfExtraOptions_get screenshotOptions_forward
      screenshotExtraOptions_get)

section \<open>The page session\<close>

text \<open>
  C5 does not hold of the code. The engine opens a page (\<open>browser.newPage\<close> returns) and
  navigation then throws. \<open>createPage\<close> throws before the variable \<open>page\<close> of the
  operation is assigned, so the \<open>finally\<close> block calls \<open>closePage(null)\<close>, which does
  nothing: the operation throws and the page that was opened is never closed. This is so
  for \<open>html\<close>, \<open>pdf\<close> and \<open>screenshot\<close> alike.
\<close>

theorem page_left_open_when_navigation_fails:
  "html noNumber (sampleEngine (Inl (Thrown 7)) everyPassReturns) ''http://a'' sampleOptions
      JUndefined JUndefined JUndefined []
     = (Inl (Thrown 7),
        [NewPage, OnError, SetRequestInterception, OnRequest (JStr []) (JBool True) (JStr []),
         Goto ''http://a'' (Fin 30000) (JStr ''networkidle2'')])
   \<and> NewPage \<in> set (snd (pdf noNumber byteLib (sampleEngine (Inl (Thrown 7)) everyPassReturns)
        ''http://a'' sampleOptions JUndefined JUndefined JUndefined []))
   \<and> Close \<notin> set (snd (pdf noNumber byteLib (sampleEngine (Inl (Thrown 7)) everyPassReturns)
        ''http://a'' sampleOptions JUndefined JUndefined JUndefined []))
   \<and> NewPage \<in> set (snd (screenshot noNumber (sampleEngine (Inl (Thrown 7)) everyPassReturns)
        ''http://a'' sampleOptions JUndefined JUndefined JUndefined []))
   \<and> Close \<notin> set (snd (screenshot noNumber (sampleEngine (Inl (Thrown 7)) everyPassReturns)
        ''http://a'' sampleOptions JUndefined JUndefined JUndefined []))"
  by (simp add: html_def screenshot_def with_page_leaks sample_openPage
      pdf_not_opened [OF sample_open_fails])
     (simp add: failedTrace_def plainTrace_def)

section \<open>The content cache and its fetch endpoint\<close>

lemma cache_read_addToCache:
  "cache_read (addToCache c key h now) key = Entry \<lparr>entry_html = h, validUntil = now + 60000\<rparr>"
  by (simp add: addToCache_def cache_write_def cache_read_def)

text \<open>
  C6, as amended. After content is stored under a key at time \<open>now\<close>, a read of that key
  no later than the expiry time \<open>now + 60000\<close> returns the stored content and leaves the
  cache as it was; a read after the expiry time returns \<open>null\<close>; and a second read within
  the expiry time returns the same content again: a read does not delete a live entry.
\<close>

theorem cache_round_trip:
  "(t \<le> now + 60000 \<longrightarrow>
      getFromCache (addToCache c key h now) key t
        = (Entry \<lparr>entry_html = h, validUntil = now + 60000\<rparr>, addToCache c key h now))
   \<and> (now + 60000 < t \<longrightarrow> fst (getFromCache (addToCache c key h now) key t) = Null)
   \<and> (t \<le> now + 60000 \<and> t' \<le> now + 60000 \<longrightarrow>
        fst (getFromCache (snd (getFromCache (addToCache c key h now) key t)) key t')
          = Entry \<lparr>entry_html = h, validUntil = now + 60000\<rparr>)"
  by (simp add: getFromCache_def cache_read_addToCache)

text \<open>
  An instance of C6 as amended: stored at time 1000, read at 1000, read again at 2000, and
  read at 61001.
\<close>

theorem cache_round_trip_witness:
  "getFromCache (addToCache emptyCache ''k'' ''<p>hi</p>'' 1000) ''k'' 1000
     = (Entry \<lparr>entry_html = ''<p>hi</p>'', validUntil = 61000\<rparr>,
        addToCache emptyCache ''k'' ''<p>hi</p>'' 1000)
   \<and> fst (getFromCache (addToCache emptyCache ''k'' ''<p>hi</p>'' 1000) ''k'' 61001) = Null
   \<and> fst (getFromCache (snd (getFromCache (addToCache emptyCache ''k'' ''<p>hi</p>'' 1000) ''k'' 1000))
            ''k'' 2000)
       = Entry \<lparr>entry_html = ''<p>hi</p>'', validUntil = 61000\<rparr>"
proof (intro conjI)
  show "getFromCache (addToCache emptyCache ''k'' ''<p>hi</p>'' 1000) ''k'' 1000
     = (Entry \<lparr>entry_html = ''<p>hi</p>'', validUntil = 61000\<rparr>,
        addToCache emptyCache ''k'' ''<p>hi</p>'' 1000)"
    using cache_round_trip [of 1000 1000 emptyCache "''k''" "''<p>hi</p>''" 2000] by simp
  show "fst (getFromCache (addToCache emptyCache ''k'' ''<p>hi</p>'' 1000) ''k'' 61001) = Null"
    using cache_round_trip [of 61001 1000 emptyCache "''k''" "''<p>hi</p>''" 2000] by simp
  have "(1000::int) \<le> 1000 + 60000 \<and> (2000::int) \<le> 1000 + 60000"
    by simp
  with cache_round_trip [of 1000 1000 emptyCache "''k''" "''<p>hi</p>''" 2000]
  have "fst (getFromCache (snd (getFromCache (addToCache emptyCache ''k'' ''<p>hi</p>'' 1000) ''k'' 1000))
            ''k'' 2000)
       = Entry \<lparr>entry_html = ''<p>hi</p>'', validUntil = 1000 + 60000\<rparr>"
    by blast
  then show "fst (getFromCache (snd (getFromCache (addToCache emptyCache ''k'' ''<p>hi</p>'' 1000) ''k'' 1000))
            ''k'' 2000)
       = Entry \<lparr>entry_html = ''<p>hi</p>'', validUntil = 61000\<rparr>"
    by simp
qed

text \<open>
  C6 as stated fails in its last part: the second read of a key finds the entry again.
\<close>

theorem cache_second_read_counterexample:
  "fst (getFromCache (snd (getFromCache (addToCache emptyCache ''k'' ''<p>hi</p>'' 1000) ''k'' 1000))
          ''k'' 1000)
     = Entry \<lparr>entry_html = ''<p>hi</p>'', validUntil = 61000\<rparr>"
  by (simp add: getFromCache_def cache_read_addToCache)

lemma proto_name: "''__proto__'' \<in> set Object_prototype_names"
  by (simp add: Object_prototype_names_def)

text \<open>
  C10, as amended. On the cache-fetch endpoint, a key that resolves to nothing, or whose entry
  has expired, makes the lookup return \<open>undefined\<close> or \<open>null\<close>; reading \<open>.html\<close> of it
  throws, and the request ends in the error page with status 500. In a cache with its
  initial prototype a key resolves to nothing exactly when it names no stored entry and is
  not the name of a property of \<open>Object.prototype\<close>. The \<open>invalid key\<close> response is given
  exactly when the key resolves to a live entry whose stored text is empty, or to a value
  inherited through the prototype.
\<close>

theorem cache_fetch_missing_key:
  "(cache_read c key = Undefined \<longrightarrow> fst (app_get c key now) = errorPage TypeError)
   \<and> (\<forall>e. cache_read c key = Entry e \<and> validUntil e < now \<longrightarrow>
          fst (app_get c key now) = errorPage TypeError)
   \<and> (proto c = None \<longrightarrow>
        (cache_read c key = Undefined \<longleftrightarrow> own c key = None \<and> key \<notin> set Object_prototype_names))
   \<and> (fst (app_get c key now) = \<lparr>status = 200, headers = [], sent = Text ''invalid key''\<rparr> \<longleftrightarrow>
        (\<exists>e. cache_read c key = Entry e \<and> \<not> validUntil e < now \<and> entry_html e = [])
        \<or> cache_read c key = Inherited)"
  by (cases "cache_read c key")
     (auto simp: app_get_def getFromCache_def errorPage_def cache_read_def proto_name
        split: option.splits if_splits)

text \<open>
  An instance of C10 as amended: an unknown key, and a key whose entry has expired.
\<close>

theorem cache_fetch_missing_key_witness:
  "cache_read emptyCache ''0f8fad5b'' = Undefined
   \<and> fst (app_get emptyCache ''0f8fad5b'' 1000) = errorPage TypeError
   \<and> fst (app_get (addToCache emptyCache ''k'' ''<p>hi</p>'' 1000) ''k'' 61001) = errorPage TypeError
   \<and> status (errorPage TypeError) = 500"
proof -
  have fresh: "proto emptyCache = None" "own emptyCache ''0f8fad5b'' = None"
    by (simp_all add: emptyCache_def)
  have unnamed: "''0f8fad5b'' \<notin> set Object_prototype_names"
    by (simp add: Object_prototype_names_def)
  from fresh unnamed cache_fetch_missing_key [of emptyCache "''0f8fad5b''" 1000]
  have absent: "cache_read emptyCache ''0f8fad5b'' = Undefined"
    by blast
  with cache_fetch_missing_key [of emptyCache "''0f8fad5b''" 1000]
  have first: "fst (app_get emptyCache ''0f8fad5b'' 1000) = errorPage TypeError"
    by blast
  have expired: "cache_read (addToCache emptyCache ''k'' ''<p>hi</p>'' 1000) ''k''
                   = Entry \<lparr>entry_html = ''<p>hi</p>'', validUntil = 61000\<rparr>
                 \<and> validUntil \<lparr>entry_html = ''<p>hi</p>'', validUntil = 61000\<rparr> < 61001"
    by (simp add: cache_read_addToCache)
  with cache_fetch_missing_key [of "addToCache emptyCache ''k'' ''<p>hi</p>'' 1000" "''k''" 61001]
  have second: "fst (app_get (addToCache emptyCache ''k'' ''<p>hi</p>'' 1000) ''k'' 61001)
                  = errorPage TypeError"
    by blast
  from absent first second show ?thesis
    by (simp add: errorPage_def)
qed

text \<open>
  C10 as stated fails: \<open>constructor\<close> is not a key of the empty cache, yet the lookup
  returns the inherited \<open>Object.prototype.constructor\<close>, whose \<open>.html\<close> is \<open>undefined\<close>, and
  the response is \<open>invalid key\<close>.
\<close>

theorem cache_fetch_inherited_key_counterexample:
  "own emptyCache ''constructor'' = None
   \<and> fst (getFromCache emptyCache ''constructor'' 1000) = Inherited
   \<and> fst (app_get emptyCache ''constructor'' 1000)
       = \<lparr>status = 200, headers = [], sent = Text ''invalid key''\<rparr>"
  by (simp add: app_get_def getFromCache_def cache_read_def emptyCache_def Object_prototype_names_def)

section \<open>The file name of a PDF response\<close>

lemma split_on_single: "c \<notin> set s \<Longrightarrow> split_on c s = [s]"
  by (induction s) auto

lemma split_on_two: "c \<in> set s \<Longrightarrow> \<exists>y z zs. split_on c s = y # z # zs"
proof (induction s)
  case Nil
  then show ?case by simp
next
  case (Cons x xs)
  show ?case
  proof (cases "x = c")
    case True
    then show ?thesis
      by (cases xs) (auto split: list.splits)
  next
    case False
    with Cons.prems have "c \<in> set xs" by simp
    from Cons.IH [OF this] False show ?thesis by auto
  qed
qed

lemma pop_split_on_after:
  "pop (split_on c (a @ c # b)) = pop (split_on c b)"
proof (induction a)
  case Nil
  show ?case
    by (cases "split_on c b") (auto split: list.splits)
next
  case (Cons x a)
  have "c \<in> set (a @ c # b)" by simp
  from split_on_two [OF this] obtain y z zs where yz: "split_on c (a @ c # b) = y # z # zs"
    by blast
  with Cons.IH show ?case
    by (cases "x = c") simp_all
qed

lemma pop_split_on: "pop (split_on c s) = rev (takeWhile (\<lambda>x. x \<noteq> c) (rev s))"
proof (cases "c \<in> set s")
  case False
  then have whole: "takeWhile (\<lambda>x. x \<noteq> c) (rev s) = rev s"
    by (auto simp: takeWhile_eq_all_conv)
  from False show ?thesis
    by (simp add: split_on_single whole)
next
  case True
  then obtain a b where s: "s = a @ c # b" and b: "c \<notin> set b"
    by (meson split_list_last)
  from b have "takeWhile (\<lambda>x. x \<noteq> c) (rev b @ c # rev a) = rev b"
    by (subst takeWhile_append2) auto
  with s b show ?thesis
    by (simp add: pop_split_on_after split_on_single)
qed

lemma lastIndexFrom_absent: "c \<notin> set s \<Longrightarrow> lastIndexFrom s c i found = found"
  by (induction s arbitrary: i found) auto

lemma lastIndexFrom_present:
  "c \<notin> set b \<Longrightarrow> lastIndexFrom (a @ c # b) c i found = i + int (length a)"
  by (induction a arbitrary: i found) (auto simp: lastIndexFrom_absent)

lemma lastIndexOf_absent: "c \<notin> set s \<Longrightarrow> lastIndexOf s c = - 1"
  by (simp add: lastIndexOf_def lastIndexFrom_absent)

lemma lastIndexOf_present: "c \<notin> set b \<Longrightarrow> lastIndexOf (a @ c # b) c = int (length a)"
  by (simp add: lastIndexOf_def lastIndexFrom_present)

lemma strip_by_lastIndexOf:
  "(if lastIndexOf s CHR ''.'' > 0 then take (nat (lastIndexOf s CHR ''.'')) s else s) = stem s"
proof (cases "CHR ''.'' \<in> set s")
  case False
  then have "CHR ''.'' \<notin> set (tl s)"
    by (cases s) auto
  with False show ?thesis
    by (simp add: lastIndexOf_absent stem_def)
next
  case True
  then obtain a b where s: "s = a @ CHR ''.'' # b" and b: "CHR ''.'' \<notin> set b"
    by (meson split_list_last)
  have idx: "lastIndexOf s CHR ''.'' = int (length a)"
    unfolding s using b by (rule lastIndexOf_present)
  have prefix: "take (length a) s = a"
    by (simp add: s)
  have "dropWhile (\<lambda>c. c \<noteq> CHR ''.'') (rev b @ CHR ''.'' # rev a) = CHR ''.'' # rev a"
    using b by (subst dropWhile_append2) auto
  then have dropped: "rev (tl (dropWhile (\<lambda>c. c \<noteq> CHR ''.'') (rev s))) = a"
    by (simp add: s)
  show ?thesis
  proof (cases a)
    case Nil
    with s b have "CHR ''.'' \<notin> set (tl s)" by simp
    with idx Nil show ?thesis
      by (simp add: stem_def)
  next
    case (Cons x xs)
    with s have "CHR ''.'' \<in> set (tl s)" by simp
    moreover from Cons have "0 < int (length a)" by simp
    ultimately show ?thesis
      using idx prefix dropped by (simp add: stem_def)
  qed
qed

lemma derivedName_eq:
  "derivedName u =
     (if pathname u = ''/'' then hostname u
      else stem (if lastSegment (pathname u) = [] then filter (\<lambda>c. c \<noteq> CHR ''/'') (pathname u)
                 else lastSegment (pathname u)))"
  by (simp add: derivedName_def Let_def pop_split_on lastSegment_def strip_by_lastIndexOf)

lemma withPdf_ends: "endsWith (toLowerCase (withPdf n)) ''.pdf''"
  by (simp add: withPdf_def) (simp add: endsWith_def toLowerCase_def lower_char_def)

text \<open>
  C7, as amended. When the caller supplies no file name (or an empty one), the name is
  derived from the parsed URL: for the root path it is the host name; otherwise it is the
  last path segment, or, when the path ends in \<open>/\<close>, the whole path with every \<open>/\<close>
  removed, and in both cases the last \<open>.\<close> and what follows it are dropped when that
  \<open>.\<close> is not the first character. \<open>.pdf\<close> is appended unless the name already ends in
  \<open>.pdf\<close>, whatever the case of the letters, so every name ends in \<open>.pdf\<close>. Where the
  path is the root, or its last segment is not empty and does not have its only \<open>.\<close> in
  the first place, this is the derivation as the specification words it. A path
  \<open>/reports/q1.data\<close> yields \<open>q1.pdf\<close>, and the root path on \<open>example.com\<close> yields
  \<open>example.com.pdf\<close>.
\<close>

theorem pdfFilename_derivation:
  "pdfFilename u None =
     withPdf (if pathname u = ''/'' then hostname u
              else stem (if lastSegment (pathname u) = []
                         then filter (\<lambda>c. c \<noteq> CHR ''/'') (pathname u)
                         else lastSegment (pathname u)))
   \<and> pdfFilename u (Some []) = pdfFilename u None
   \<and> endsWith (toLowerCase (pdfFilename u requested)) ''.pdf''
   \<and> (pathname u = ''/''
        \<or> (lastSegment (pathname u) \<noteq> []
            \<and> (CHR ''.'' \<in> set (lastSegment (pathname u))
                 \<longrightarrow> CHR ''.'' \<in> set (tl (lastSegment (pathname u)))))
       \<longrightarrow> pdfFilename u None = claimedFilename u)
   \<and> pdfFilename \<lparr>hostname = ''example.com'', pathname = ''/reports/q1.data''\<rparr> None = ''q1.pdf''
   \<and> pdfFilename \<lparr>hostname = ''example.com'', pathname = ''/''\<rparr> None = ''example.com.pdf''"
proof (intro conjI impI)
  show general: "pdfFilename u None =
     withPdf (if pathname u = ''/'' then hostname u
              else stem (if lastSegment (pathname u) = []
                         then filter (\<lambda>c. c \<noteq> CHR ''/'') (pathname u)
                         else lastSegment (pathname u)))"
    by (simp add: pdfFilename_def withPdf_def derivedName_eq)
  show "pdfFilename u (Some []) = pdfFilename u None"
    by (simp add: pdfFilename_def)
  have "pdfFilename u requested = withPdf (case requested of None \<Rightarrow> derivedName u
          | Some f \<Rightarrow> if f = [] then derivedName u else f)"
    by (simp add: pdfFilename_def withPdf_def)
  then show "endsWith (toLowerCase (pdfFilename u requested)) ''.pdf''"
    by (simp add: withPdf_ends)
  show "pdfFilename u None = claimedFilename u"
    if "pathname u = ''/''
        \<or> (lastSegment (pathname u) \<noteq> []
            \<and> (CHR ''.'' \<in> set (lastSegment (pathname u))
                 \<longrightarrow> CHR ''.'' \<in> set (tl (lastSegment (pathname u)))))"
  proof -
    have "stem s = stripFinalExtension s" if "CHR ''.'' \<in> set s \<longrightarrow> CHR ''.'' \<in> set (tl s)" for s
      using that by (cases s) (auto simp: stem_def stripFinalExtension_def)
    with that show ?thesis
      unfolding general claimedFilename_def by auto
  qed
  show "pdfFilename \<lparr>hostname = ''example.com'', pathname = ''/reports/q1.data''\<rparr> None = ''q1.pdf''"
    by (simp add: pdfFilename_def derivedName_def lastIndexOf_def endsWith_def toLowerCase_def
        lower_char_def)
  show "pdfFilename \<lparr>hostname = ''example.com'', pathname = ''/''\<rparr> None = ''example.com.pdf''"
    by (simp add: pdfFilename_def derivedName_def endsWith_def toLowerCase_def lower_char_def)
qed

text \<open>
  An instance of C7 as amended: for \<open>/reports/q1.data\<close> the code and the wording of the
  specification agree on \<open>q1.pdf\<close>.
\<close>

theorem pdfFilename_derivation_witness:
  "claimedFilename \<lparr>hostname = ''example.com'', pathname = ''/reports/q1.data''\<rparr> = ''q1.pdf''"
proof -
  have seg: "lastSegment ''/reports/q1.data'' = ''q1.data''"
    by (simp add: lastSegment_def)
  note inst = pdfFilename_derivation
    [of "\<lparr>hostname = ''example.com'', pathname = ''/reports/q1.data''\<rparr>" None]
  have named: "pathname \<lparr>hostname = ''example.com'', pathname = ''/reports/q1.data''\<rparr> = ''/''
      \<or> (lastSegment (pathname \<lparr>hostname = ''example.com'', pathname = ''/reports/q1.data''\<rparr>) \<noteq> []
          \<and> (CHR ''.'' \<in> set (lastSegment
                 (pathname \<lparr>hostname = ''example.com'', pathname = ''/reports/q1.data''\<rparr>))
               \<longrightarrow> CHR ''.'' \<in> set (tl (lastSegment
                 (pathname \<lparr>hostname = ''example.com'', pathname = ''/reports/q1.data''\<rparr>)))))"
    by (simp add: seg)
  have same: "pdfFilename \<lparr>hostname = ''example.com'', pathname = ''/reports/q1.data''\<rparr> None
          = claimedFilename \<lparr>hostname = ''example.com'', pathname = ''/reports/q1.data''\<rparr>"
    using inst named by blast
  have name: "pdfFilename \<lparr>hostname = ''example.com'', pathname = ''/reports/q1.data''\<rparr> None
          = ''q1.pdf''"
    using inst by blast
  from same name show ?thesis
    by simp
qed

text \<open>
  C7 as stated fails: for the path \<open>/a/b/\<close> the last segment is empty and the derived name
  is \<open>ab.pdf\<close>, the path without its slashes.
\<close>

theorem pdfFilename_trailing_slash_counterexample:
  "pdfFilename \<lparr>hostname = ''example.com'', pathname = ''/a/b/''\<rparr> None = ''ab.pdf''
   \<and> lastSegment ''/a/b/'' = []
   \<and> claimedFilename \<lparr>hostname = ''example.com'', pathname = ''/a/b/''\<rparr> = ''.pdf''"
  by (simp add: pdfFilename_def derivedName_def lastIndexOf_def endsWith_def toLowerCase_def
      lower_char_def lastSegment_def claimedFilename_def withPdf_def stripFinalExtension_def)

section \<open>The query-based endpoint\<close>

text \<open>
  C9. On the query-based endpoint, a request whose \<open>url\<close> parameter is absent or empty is
  answered with status 400 and the plain-text hint, and the trace is unchanged: no engine
  operation is invoked. A request with a \<open>url\<close> whose rendering operation (\<open>pdf\<close>,
  \<open>screenshot\<close> or \<open>html\<close>, by \<open>type\<close>) throws is answered with status 500 and the
  generic message.
\<close>

theorem gateway_errors:
  "((q_url req = None \<or> q_url req = Some []) \<longrightarrow>
       app_use plat lib eng req t
         = (\<lparr>status = 400, headers = [],
             sent = Text ''Search with url parameter. For eaxample, ?url=http://yourdomain''\<rparr>, t))
   \<and> (\<forall>url e. q_url req = Some url \<and> url \<noteq> [] \<and> q_type req = Some ''pdf''
          \<and> fst (pdf (to_number plat) lib eng (effectiveUrl url)
                   (obj_omit [''contentDispositionType''] (q_options req))
                   (q_authorization req) (JBool (req_method req = ''POST'')) (req_body req) t) = Inl e
        \<longrightarrow> fst (app_use plat lib eng req t)
              = \<lparr>status = 500, headers = [], sent = Text ''Oops, Somehting went wrong''\<rparr>)
   \<and> (\<forall>url e. q_url req = Some url \<and> url \<noteq> [] \<and> q_type req = Some ''screenshot''
          \<and> fst (screenshot (to_number plat) eng (effectiveUrl url) (q_options req)
                   (q_authorization req) (JBool (req_method req = ''POST'')) (req_body req) t) = Inl e
        \<longrightarrow> fst (app_use plat lib eng req t)
              = \<lparr>status = 500, headers = [], sent = Text ''Oops, Somehting went wrong''\<rparr>)
   \<and> (\<forall>url e. q_url req = Some url \<and> url \<noteq> [] \<and> q_type req \<noteq> Some ''pdf''
          \<and> q_type req \<noteq> Some ''screenshot''
          \<and> fst (html (to_number plat) eng (effectiveUrl url) (q_options req)
                   (q_authorization req) (req_body req) JUndefined t) = Inl e
        \<longrightarrow> fst (app_use plat lib eng req t)
              = \<lparr>status = 500, headers = [], sent = Text ''Oops, Somehting went wrong''\<rparr>)"
proof (intro conjI allI impI)
  assume "q_url req = None \<or> q_url req = Some []"
  then show "app_use plat lib eng req t
         = (\<lparr>status = 400, headers = [],
             sent = Text ''Search with url parameter. For eaxample, ?url=http://yourdomain''\<rparr>, t)"
    by (auto simp: app_use_def)
next
  fix url e
  assume "q_url req = Some url \<and> url \<noteq> [] \<and> q_type req = Some ''pdf''
          \<and> fst (pdf (to_number plat) lib eng (effectiveUrl url)
                   (obj_omit [''contentDispositionType''] (q_options req))
                   (q_authorization req) (JBool (req_method req = ''POST'')) (req_body req) t) = Inl e"
  then show "fst (app_use plat lib eng req t)
              = \<lparr>status = 500, headers = [], sent = Text ''Oops, Somehting went wrong''\<rparr>"
    by (auto simp: app_use_def dispatch_def errorPage_def and_then_def lift_def
        split: sum.splits prod.splits)
next
  fix url e
  assume "q_url req = Some url \<and> url \<noteq> [] \<and> q_type req = Some ''screenshot''
          \<and> fst (screenshot (to_number plat) eng (effectiveUrl url) (q_options req)
                   (q_authorization req) (JBool (req_method req = ''POST'')) (req_body req) t) = Inl e"
  then show "fst (app_use plat lib eng req t)
              = \<lparr>status = 500, headers = [], sent = Text ''Oops, Somehting went wrong''\<rparr>"
    by (auto simp: app_use_def dispatch_def errorPage_def and_then_def
        split: sum.splits prod.splits)
next
  fix url e
  assume "q_url req = Some url \<and> url \<noteq> [] \<and> q_type req \<noteq> Some ''pdf''
          \<and> q_type req \<noteq> Some ''screenshot''
          \<and> fst (html (to_number plat) eng (effectiveUrl url) (q_options req)
                   (q_authorization req) (req_body req) JUndefined t) = Inl e"
  then show "fst (app_use plat lib eng req t)
              = \<lparr>status = 500, headers = [], sent = Text ''Oops, Somehting went wrong''\<rparr>"
    by (auto simp: app_use_def dispatch_def errorPage_def and_then_def
        split: sum.splits prod.splits)
qed

text \<open>
  An instance of C9: a request without \<open>url\<close>, and three requests, one of each type,
  whose navigation throws.
\<close>

theorem gateway_errors_witness:
  "app_use samplePlatform byteLib (sampleEngine (Inl (Thrown 7)) everyPassReturns)
      (sampleRequest None (Some ''pdf'')) []
     = (\<lparr>status = 400, headers = [],
         sent = Text ''Search with url parameter. For eaxample, ?url=http://yourdomain''\<rparr>, [])
   \<and> status (fst (app_use samplePlatform byteLib (sampleEngine (Inl (Thrown 7)) everyPassReturns)
        (sampleRequest (Some ''a.test'') (Some ''pdf'')) [])) = 500
   \<and> status (fst (app_use samplePlatform byteLib (sampleEngine (Inl (Thrown 7)) everyPassReturns)
        (sampleRequest (Some ''a.test'') (Some ''screenshot'')) [])) = 500
   \<and> status (fst (app_use samplePlatform byteLib (sampleEngine (Inl (Thrown 7)) everyPassReturns)
        (sampleRequest (Some ''a.test'') None) [])) = 500"
proof -
  let ?eng = "sampleEngine (Inl (Thrown 7)) everyPassReturns"
  have p: "fst (pdf noNumber byteLib ?eng (effectiveUrl ''a.test'')
                  (obj_omit [''contentDispositionType''] sampleOptions)
                  JUndefined (JBool (''GET'' = ''POST'')) JUndefined []) = Inl (Thrown 7)"
    unfolding pdf_def openPdfPage_def by (rule with_page_not_opened) (rule sample_navigation_fails)
  have s: "fst (screenshot noNumber ?eng (effectiveUrl ''a.test'') sampleOptions
                  JUndefined (JBool (''GET'' = ''POST'')) JUndefined []) = Inl (Thrown 7)"
    unfolding screenshot_def openPage_def by (rule with_page_not_opened) (rule sample_navigation_fails)
  have h: "fst (html noNumber ?eng (effectiveUrl ''a.test'') sampleOptions
                  JUndefined JUndefined JUndefined []) = Inl (Thrown 7)"
    unfolding html_def openPage_def by (rule with_page_not_opened) (rule sample_navigation_fails)
  from p s h
    gateway_errors [of "sampleRequest None (Some ''pdf'')" samplePlatform byteLib ?eng "[]"]
    gateway_errors [of "sampleRequest (Some ''a.test'') (Some ''pdf'')" samplePlatform byteLib ?eng "[]"]
    gateway_errors [of "sampleRequest (Some ''a.test'') (Some ''screenshot'')" samplePlatform byteLib ?eng "[]"]
    gateway_errors [of "sampleRequest (Some ''a.test'') None" samplePlatform byteLib ?eng "[]"]
  show ?thesis
    by simp
qed

end
